theory Spec2Isabelle
  imports Main
begin

section \<open>Badge tracker (scripts/badge\_tracker.py)\<close>

subsection \<open>Data\<close>

text \<open>
  A Python exception, with the text that \<open>str(e)\<close> gives. Only subclasses of
  \<open>Exception\<close> are modelled: they are what the handlers of the scripts catch.
\<close>

datatype exn = Exception string

fun str :: "exn \<Rightarrow> string" where
  "str (Exception msg) = msg"

text \<open>
  One value of \<open>self.badges\<close>. The dictionary \<open>tiers\<close> is an association list:
  a Python dictionary iterates in insertion order.
\<close>

record badge_info =
  description :: string
  tiers :: "(string \<times> int) list"
  check_method :: string

text \<open>The dictionary stored under \<open>"next_requirement"\<close>.\<close>

record next_req =
  tier :: string
  count :: int
  needed :: int

text \<open>
  One value of the dictionary that \<open>get_badge_progress\<close> returns. The keys
  \<open>"description"\<close> and \<open>"tiers"\<close> are the fields \<open>p_description\<close> and \<open>p_tiers\<close>;
  the key \<open>"error"\<close> exists only in an entry written by the handler.
\<close>

record progress_entry =
  current :: int
  achieved_tier :: "string option"
  next_requirement :: "next_req option"
  p_description :: string
  p_tiers :: "(string \<times> int) list"
  error :: "string option"

text \<open>\<open>self.badges\<close>, in the order of its declaration.\<close>

definition badges :: "(string \<times> badge_info) list" where
  "badges =
    [(''Heart On Your Sleeve'',
        \<lparr>description = ''Submit a pull request that gets merged'',
         tiers = [(''Default'', 1), (''Bronze'', 2), (''Silver'', 4), (''Gold'', 8)],
         check_method = ''count_merged_prs''\<rparr>),
     (''Open Sourcerer'',
        \<lparr>description = ''User had PRs merged in multiple public repositories'',
         tiers = [(''Default'', 1), (''Bronze'', 2), (''Silver'', 3), (''Gold'', 4)],
         check_method = ''count_repos_with_merged_prs''\<rparr>),
     (''Starstruck'',
        \<lparr>description = ''Created a repository that has many stars'',
         tiers = [(''Default'', 16), (''Bronze'', 128), (''Silver'', 512), (''Gold'', 4096)],
         check_method = ''count_max_stars''\<rparr>),
     (''Quickdraw'',
        \<lparr>description = ''Closed an issue/pull request within 5 minutes of opening'',
         tiers = [(''Default'', 1)],
         check_method = ''check_quickdraw''\<rparr>),
     (''Pair Extraordinaire'',
        \<lparr>description = ''Coauthored commits on merged pull request'',
         tiers = [(''Default'', 1), (''Bronze'', 10), (''Silver'', 24), (''Gold'', 48)],
         check_method = ''count_coauthored_commits''\<rparr>),
     (''Pull Shark'',
        \<lparr>description = ''Opened a pull request that has been merged'',
         tiers = [(''Default'', 2), (''Bronze'', 16), (''Silver'', 128), (''Gold'', 1024)],
         check_method = ''count_merged_prs''\<rparr>),
     (''Galaxy Brain'',
        \<lparr>description = ''Answered a discussion (got an accepted answer)'',
         tiers = [(''Default'', 2), (''Bronze'', 8), (''Silver'', 16), (''Gold'', 32)],
         check_method = ''count_discussion_answers''\<rparr>),
     (''YOLO'',
        \<lparr>description = ''Merged a pull request without a review'',
         tiers = [(''Default'', 1)],
         check_method = ''check_yolo_merges''\<rparr>),
     (''Public Sponsor'',
        \<lparr>description = ''Sponsored an open source contributor through GitHub Sponsors'',
         tiers = [(''Default'', 1)],
         check_method = ''check_sponsorships''\<rparr>)]"

subsection \<open>The hosted service, as the metric checks see it\<close>

text \<open>
  A lazily fetched list of the client library: the items that could be fetched, and the
  exception raised when fetching more, if any. An attribute access that raises on some
  item is the same list cut before that item.
\<close>

type_synonym 'a paginated = "'a list \<times> exn option"

text \<open>
  A search hit. \<open>repository\<close> is \<open>None\<close> when \<open>hasattr(pr, 'repository')\<close> is false,
  and the \<open>full_name\<close> of the repository otherwise. The counts that the service reports
  (\<open>totalCount\<close>, \<open>stargazers_count\<close>) are natural numbers; reading \<open>totalCount\<close> is
  a request of its own and may raise.
\<close>

record issue =
  repository :: "string option"

record search_result =
  totalCount :: "exn + nat"
  found :: "issue paginated"

record repo =
  is_private :: bool
  stargazers_count :: nat

text \<open>
  The external state read by one run: \<open>self.user.login\<close>, \<open>self.github.search_issues\<close>
  and \<open>self.user.get_repos(type='owner')\<close>, each either raising or returning.
\<close>

record world =
  login :: "exn + string"
  search_issues :: "string \<Rightarrow> exn + search_result"
  get_repos :: "exn + repo paginated"

subsection \<open>Metric checks\<close>

definition merged_query :: "string \<Rightarrow> string" where
  "merged_query l = ''type:pr author:'' @ l @ '' is:merged''"

text \<open>
  Each \<open>try\<close> block is a case distinction on the outcome of its calls; the handler only
  prints, so the value of the local variable at the time of the exception is returned.
\<close>

definition count_merged_prs :: "world \<Rightarrow> int" where
  "count_merged_prs w =
     (case login w of
        Inl e \<Rightarrow> 0
      | Inr l \<Rightarrow>
          (case search_issues w (merged_query l) of
             Inl e \<Rightarrow> 0
           | Inr prs \<Rightarrow> (case totalCount prs of Inl e \<Rightarrow> 0 | Inr n \<Rightarrow> int n)))"

fun repos_loop :: "string set \<Rightarrow> issue list \<Rightarrow> string set" where
  "repos_loop repos [] = repos"
| "repos_loop repos (pr # prs) =
     repos_loop (case repository pr of None \<Rightarrow> repos | Some full_name \<Rightarrow> insert full_name repos) prs"

definition count_repos_with_merged_prs :: "world \<Rightarrow> int" where
  "count_repos_with_merged_prs w =
     (case login w of
        Inl e \<Rightarrow> int (card ({} :: string set))
      | Inr l \<Rightarrow>
          (case search_issues w (merged_query l) of
             Inl e \<Rightarrow> int (card ({} :: string set))
           | Inr prs \<Rightarrow> int (card (repos_loop {} (take 100 (fst (found prs)))))))"

fun max_stars_loop :: "nat \<Rightarrow> repo list \<Rightarrow> nat" where
  "max_stars_loop max_stars [] = max_stars"
| "max_stars_loop max_stars (r # rs) =
     max_stars_loop
       (if \<not> is_private r \<and> stargazers_count r > max_stars then stargazers_count r else max_stars) rs"

definition count_max_stars :: "world \<Rightarrow> int" where
  "count_max_stars w =
     (case get_repos w of
        Inl e \<Rightarrow> 0
      | Inr repos \<Rightarrow> int (max_stars_loop 0 (fst repos)))"

definition check_quickdraw :: "world \<Rightarrow> int" where
  "check_quickdraw w = 0"

definition count_coauthored_commits :: "world \<Rightarrow> int" where
  "count_coauthored_commits w = 0"

definition count_discussion_answers :: "world \<Rightarrow> int" where
  "count_discussion_answers w = 0"

definition check_yolo_merges :: "world \<Rightarrow> int" where
  "check_yolo_merges w = 0"

definition check_sponsorships :: "world \<Rightarrow> int" where
  "check_sponsorships w = 0"

subsection \<open>Progress\<close>

text \<open>
  \<open>sorted(badge_info["tiers"].items(), key=lambda x: x[1])\<close>: Python's sort is stable,
  and so is \<open>sort_key\<close>.
\<close>

definition sorted_tiers :: "(string \<times> int) list \<Rightarrow> (string \<times> int) list" where
  "sorted_tiers ts = sort_key snd ts"

text \<open>The first loop: it never breaks, so the last tier that is reached wins.\<close>

fun achieved_loop :: "int \<Rightarrow> (string \<times> int) list \<Rightarrow> string option \<Rightarrow> string option" where
  "achieved_loop current_count [] achieved = achieved"
| "achieved_loop current_count ((t, requirement) # rest) achieved =
     achieved_loop current_count rest (if current_count \<ge> requirement then Some t else achieved)"

text \<open>The second loop: it breaks at the first tier that is not reached.\<close>

fun next_loop :: "int \<Rightarrow> (string \<times> int) list \<Rightarrow> next_req option" where
  "next_loop current_count [] = None"
| "next_loop current_count ((t, requirement) # rest) =
     (if current_count < requirement
      then Some \<lparr>tier = t, count = requirement, needed = requirement - current_count\<rparr>
      else next_loop current_count rest)"

text \<open>The entry written by the body of the \<open>try\<close> block once the check has returned.\<close>

definition compute_entry :: "badge_info \<Rightarrow> int \<Rightarrow> progress_entry" where
  "compute_entry badge current_count =
     \<lparr>current = current_count,
      achieved_tier = achieved_loop current_count (sorted_tiers (tiers badge)) None,
      next_requirement = next_loop current_count (sorted_tiers (tiers badge)),
      p_description = description badge,
      p_tiers = tiers badge,
      error = None\<rparr>"

text \<open>The entry written by the handler \<open>except Exception as e\<close>.\<close>

definition error_entry :: "badge_info \<Rightarrow> exn \<Rightarrow> progress_entry" where
  "error_entry badge e =
     \<lparr>current = 0,
      achieved_tier = None,
      next_requirement = None,
      p_description = description badge,
      p_tiers = tiers badge,
      error = Some (str e)\<rparr>"

text \<open>
  What \<open>getattr(self, method_name)()\<close> does during the iteration for one badge: \<open>None\<close>
  when the object has no such attribute, otherwise the exception raised by the call or
  the count it returns. The first argument is the badge whose iteration makes the call:
  every iteration makes a call of its own.
\<close>

type_synonym tracker = "string \<Rightarrow> string \<Rightarrow> (exn + int) option"

text \<open>One iteration of the loop over \<open>self.badges.items()\<close>.\<close>

definition check_badge :: "tracker \<Rightarrow> string \<Rightarrow> badge_info \<Rightarrow> progress_entry" where
  "check_badge self badge_name badge =
     (case self badge_name (check_method badge) of
        None \<Rightarrow> compute_entry badge 0
      | Some (Inr current_count) \<Rightarrow> compute_entry badge current_count
      | Some (Inl e) \<Rightarrow> error_entry badge e)"

text \<open>\<open>d[k] = v\<close> on a dictionary kept in insertion order.\<close>

fun dict_set :: "('k \<times> 'v) list \<Rightarrow> 'k \<Rightarrow> 'v \<Rightarrow> ('k \<times> 'v) list" where
  "dict_set [] k v = [(k, v)]"
| "dict_set ((k', v') # d) k v = (if k' = k then (k, v) # d else (k', v') # dict_set d k v)"

fun progress_loop ::
  "tracker \<Rightarrow> (string \<times> badge_info) list \<Rightarrow> (string \<times> progress_entry) list
     \<Rightarrow> (string \<times> progress_entry) list" where
  "progress_loop self [] progress = progress"
| "progress_loop self ((badge_name, badge) # rest) progress =
     progress_loop self rest (dict_set progress badge_name (check_badge self badge_name badge))"

text \<open>
  The loop of \<open>get_badge_progress\<close>, for an object with the given methods and the given
  catalogue.
\<close>

definition get_badge_progress_of ::
  "tracker \<Rightarrow> (string \<times> badge_info) list \<Rightarrow> (string \<times> progress_entry) list" where
  "get_badge_progress_of self bs = progress_loop self bs []"

text \<open>The methods of \<open>BadgeTracker\<close> itself: none of them raises.\<close>

definition BadgeTracker :: "world \<Rightarrow> tracker" where
  "BadgeTracker w badge_name method_name =
     (if method_name = ''count_merged_prs'' then Some (Inr (count_merged_prs w))
      else if method_name = ''count_repos_with_merged_prs'' then Some (Inr (count_repos_with_merged_prs w))
      else if method_name = ''count_max_stars'' then Some (Inr (count_max_stars w))
      else if method_name = ''check_quickdraw'' then Some (Inr (check_quickdraw w))
      else if method_name = ''count_coauthored_commits'' then Some (Inr (count_coauthored_commits w))
      else if method_name = ''count_discussion_answers'' then Some (Inr (count_discussion_answers w))
      else if method_name = ''check_yolo_merges'' then Some (Inr (check_yolo_merges w))
      else if method_name = ''check_sponsorships'' then Some (Inr (check_sponsorships w))
      else None)"

text \<open>
  \<open>get_badge_progress\<close>. Before its loop the method prints \<open>self.user.login\<close>, outside
  every \<open>try\<close> block: when reading the login raises, the exception leaves the method and
  there is no report.
\<close>

definition get_badge_progress :: "world \<Rightarrow> exn + (string \<times> progress_entry) list" where
  "get_badge_progress w =
     (case login w of
        Inl e \<Rightarrow> Inl e
      | Inr l \<Rightarrow> Inr (get_badge_progress_of (BadgeTracker w) badges))"

section \<open>Badge orchestrator (scripts/badge\_orchestrator.py)\<close>

subsection \<open>The earning plan\<close>

text \<open>\<open>self.earning_order\<close>: "easiest to hardest".\<close>

definition earning_order :: "string list" where
  "earning_order =
     [''Quickdraw'', ''YOLO'', ''Public Sponsor'', ''Heart On Your Sleeve'', ''Open Sourcerer'',
      ''Pair Extraordinaire'', ''Pull Shark'', ''Galaxy Brain'', ''Starstruck'']"

text \<open>
  One dictionary appended to a list of the plan. A key that a branch does not write is
  \<open>None\<close>; the key \<open>"next_requirement"\<close> holds what \<open>badge_info.get\<close> returns, which may
  itself be Python's \<open>None\<close>.
\<close>

record plan_item =
  name :: string
  item_tier :: "string option"
  item_description :: string
  item_next_requirement :: "next_req option option"
  automated :: "bool option"
  manual_steps :: "string list option"
  tools_available :: "bool option"

record plan =
  immediate :: "plan_item list"
  quick :: "plan_item list"
  short_term :: "plan_item list"
  long_term :: "plan_item list"
  completed :: "plan_item list"

definition empty_plan :: plan where
  "empty_plan = \<lparr>immediate = [], quick = [], short_term = [], long_term = [], completed = []\<rparr>"

text \<open>Python's truth value of \<open>badge_info["achieved_tier"]\<close>: \<open>None\<close> and \<open>""\<close> are false.\<close>

fun truthy :: "string option \<Rightarrow> bool" where
  "truthy None = False"
| "truthy (Some s) = (s \<noteq> [])"

text \<open>The body of the loop \<open>for badge_name in self.earning_order\<close>.\<close>

definition plan_step :: "(string \<times> progress_entry) list \<Rightarrow> plan \<Rightarrow> string \<Rightarrow> plan" where
  "plan_step progress pl badge_name =
     (case map_of progress badge_name of
        None \<Rightarrow> pl
      | Some badge_info \<Rightarrow>
          if truthy (achieved_tier badge_info) then
            pl\<lparr>completed := completed pl @
              [\<lparr>name = badge_name, item_tier = achieved_tier badge_info,
                item_description = p_description badge_info, item_next_requirement = None,
                automated = None, manual_steps = None, tools_available = None\<rparr>]\<rparr>
          else if badge_name \<in> set [''Quickdraw'', ''YOLO''] then
            pl\<lparr>immediate := immediate pl @
              [\<lparr>name = badge_name, item_tier = None,
                item_description = p_description badge_info,
                item_next_requirement = Some (next_requirement badge_info),
                automated = Some True, manual_steps = None, tools_available = None\<rparr>]\<rparr>
          else if badge_name \<in> set [''Public Sponsor''] then
            pl\<lparr>quick := quick pl @
              [\<lparr>name = badge_name, item_tier = None,
                item_description = p_description badge_info,
                item_next_requirement = Some (next_requirement badge_info),
                automated = Some False,
                manual_steps = Some [''Go to GitHub Sponsors'', ''Sponsor any developer $1/month''],
                tools_available = None\<rparr>]\<rparr>
          else if badge_name \<in> set [''Heart On Your Sleeve'', ''Open Sourcerer'', ''Pair Extraordinaire''] then
            pl\<lparr>short_term := short_term pl @
              [\<lparr>name = badge_name, item_tier = None,
                item_description = p_description badge_info,
                item_next_requirement = Some (next_requirement badge_info),
                automated = Some False, manual_steps = None, tools_available = Some True\<rparr>]\<rparr>
          else
            pl\<lparr>long_term := long_term pl @
              [\<lparr>name = badge_name, item_tier = None,
                item_description = p_description badge_info,
                item_next_requirement = Some (next_requirement badge_info),
                automated = Some False, manual_steps = None, tools_available = Some False\<rparr>]\<rparr>)"

text \<open>The plan made from a progress, and from the loop of a tracker object.\<close>

definition plan_of_progress :: "(string \<times> progress_entry) list \<Rightarrow> plan" where
  "plan_of_progress progress = foldl (plan_step progress) empty_plan earning_order"

definition get_earning_plan_of :: "tracker \<Rightarrow> plan" where
  "get_earning_plan_of self = plan_of_progress (get_badge_progress_of self badges)"

text \<open>
  \<open>get_earning_plan\<close>: an exception of \<open>self.tracker.get_badge_progress()\<close> is not
  caught, so it leaves the method and there is no plan.
\<close>

definition get_earning_plan :: "world \<Rightarrow> exn + plan" where
  "get_earning_plan w =
     (case get_badge_progress w of
        Inl e \<Rightarrow> Inl e
      | Inr progress \<Rightarrow> Inr (plan_of_progress progress))"

text \<open>The five lists of a plan, by name, and the names listed in each.\<close>

datatype bucket = Immediate | Quick | ShortTerm | LongTerm | Completed

fun bucket_items :: "plan \<Rightarrow> bucket \<Rightarrow> plan_item list" where
  "bucket_items pl Immediate = immediate pl"
| "bucket_items pl Quick = quick pl"
| "bucket_items pl ShortTerm = short_term pl"
| "bucket_items pl LongTerm = long_term pl"
| "bucket_items pl Completed = completed pl"

definition bucket_names :: "plan \<Rightarrow> bucket \<Rightarrow> string list" where
  "bucket_names pl b = map name (bucket_items pl b)"

text \<open>
  The chain of name tests of \<open>get_earning_plan\<close>, read as a table from badge name to
  the list used for a badge that is not achieved.
\<close>

definition capability :: "string \<Rightarrow> bucket" where
  "capability badge_name =
     (if badge_name \<in> set [''Quickdraw'', ''YOLO''] then Immediate
      else if badge_name \<in> set [''Public Sponsor''] then Quick
      else if badge_name \<in> set [''Heart On Your Sleeve'', ''Open Sourcerer'', ''Pair Extraordinaire'']
        then ShortTerm
      else LongTerm)"

definition bucket_of :: "progress_entry \<Rightarrow> string \<Rightarrow> bucket" where
  "bucket_of badge_info badge_name =
     (if truthy (achieved_tier badge_info) then Completed else capability badge_name)"

text \<open>
  The list in which a badge name is expected, given the progress: none when the progress
  has no entry under that name.
\<close>

definition expected_bucket :: "(string \<times> progress_entry) list \<Rightarrow> string \<Rightarrow> bucket option" where
  "expected_bucket progress badge_name =
     (case map_of progress badge_name of
        None \<Rightarrow> None
      | Some badge_info \<Rightarrow> Some (bucket_of badge_info badge_name))"

text \<open>An order of names, restricted to the given names.\<close>

definition restrict_order :: "string list \<Rightarrow> string list \<Rightarrow> string list" where
  "restrict_order order names = filter (\<lambda>n. n \<in> set names) order"

subsection \<open>The timed workflows\<close>

text \<open>
  The calls that the workflows make on the hosted service, or on the clock, and what a
  run leaves behind: for each call made, in order, whether it returned or raised.
\<close>

datatype call =
    CreateRepo | CreateIssue | Sleep int | EditIssueClosed | DeleteRepo
  | GetBranch | CreateGitRef | CreateFile | CreatePull | MergePull
  | GetRepo | CreateComment

datatype event = Returned call | Raised call

text \<open>
  The hosted service decides, from the events so far, whether a call raises.
  \<open>time.sleep\<close> does not ask the service: it raises \<open>ValueError\<close> on a negative
  delay and returns otherwise.
\<close>

type_synonym service = "event list \<Rightarrow> call \<Rightarrow> bool"

fun raises :: "service \<Rightarrow> event list \<Rightarrow> call \<Rightarrow> bool" where
  "raises svc trace (Sleep seconds) = (seconds < 0)"
| "raises svc trace c = svc trace c"

definition perform :: "service \<Rightarrow> event list \<Rightarrow> call \<Rightarrow> event list \<times> bool" where
  "perform svc trace c =
     (if raises svc trace c then (trace @ [Raised c], False) else (trace @ [Returned c], True))"

text \<open>
  The statements of a \<open>try\<close> block, run in order up to the first one that raises; the
  second component tells whether the end of the block was reached.
\<close>

fun try_body :: "service \<Rightarrow> event list \<Rightarrow> call list \<Rightarrow> event list \<times> bool" where
  "try_body svc trace [] = (trace, True)"
| "try_body svc trace (c # cs) =
     (let (trace', ok) = perform svc trace c
      in if ok then try_body svc trace' cs else (trace', False))"

text \<open>
  The handler of both workflows: \<open>'repo' in locals()\<close> holds when \<open>create_repo\<close> has
  returned; an exception of this second \<open>repo.delete()\<close> is swallowed.
\<close>

definition cleanup_handler :: "service \<Rightarrow> event list \<Rightarrow> event list" where
  "cleanup_handler svc trace =
     (if Returned CreateRepo \<in> set trace then fst (perform svc trace DeleteRepo) else trace)"

definition earn_quickdraw_badge :: "service \<Rightarrow> bool \<times> event list" where
  "earn_quickdraw_badge svc =
     (let (trace, ok) = try_body svc [] [CreateRepo, CreateIssue, Sleep 30, EditIssueClosed, DeleteRepo]
      in if ok then (True, trace) else (False, cleanup_handler svc trace))"

definition earn_yolo_badge :: "service \<Rightarrow> bool \<times> event list" where
  "earn_yolo_badge svc =
     (let (trace, ok) =
        try_body svc [] [CreateRepo, GetBranch, CreateGitRef, CreateFile, CreatePull, MergePull, DeleteRepo]
      in if ok then (True, trace) else (False, cleanup_handler svc trace))"



subsection \<open>Reading a trace\<close>

text \<open>What a call creates and what it deletes.\<close>

datatype artifact = Repository | Issue | Branch | File | PullRequest

fun creates :: "call \<Rightarrow> artifact option" where
  "creates CreateRepo = Some Repository"
| "creates CreateIssue = Some Issue"
| "creates CreateGitRef = Some Branch"
| "creates CreateFile = Some File"
| "creates CreatePull = Some PullRequest"
| "creates c = None"

fun deletes :: "call \<Rightarrow> artifact option" where
  "deletes DeleteRepo = Some Repository"
| "deletes c = None"

text \<open>The artifacts created by the calls that returned, in order of creation.\<close>

fun created_handles :: "event list \<Rightarrow> artifact list" where
  "created_handles [] = []"
| "created_handles (Returned c # es) =
     (case creates c of None \<Rightarrow> created_handles es | Some a \<Rightarrow> a # created_handles es)"
| "created_handles (Raised c # es) = created_handles es"

text \<open>The artifacts on which a deletion was attempted, whether it returned or raised.\<close>

fun cleanup_attempted :: "event list \<Rightarrow> artifact list" where
  "cleanup_attempted [] = []"
| "cleanup_attempted (Returned c # es) =
     (case deletes c of None \<Rightarrow> cleanup_attempted es | Some a \<Rightarrow> a # cleanup_attempted es)"
| "cleanup_attempted (Raised c # es) =
     (case deletes c of None \<Rightarrow> cleanup_attempted es | Some a \<Rightarrow> a # cleanup_attempted es)"

fun is_returned :: "event \<Rightarrow> bool" where
  "is_returned (Returned c) = True"
| "is_returned (Raised c) = False"

text \<open>The events before the first exception, and those after it.\<close>

definition before_failure :: "event list \<Rightarrow> event list" where
  "before_failure trace = takeWhile is_returned trace"

definition after_failure :: "event list \<Rightarrow> event list" where
  "after_failure trace = drop 1 (dropWhile is_returned trace)"




text \<open>
  What is left on the service after a run. Every artifact other than the repository is
  created inside the repository, so a deletion of the repository that returns removes
  them all.
\<close>

fun remaining_artifacts :: "artifact list \<Rightarrow> event list \<Rightarrow> artifact list" where
  "remaining_artifacts live [] = live"
| "remaining_artifacts live (Returned c # es) =
     remaining_artifacts
       (if c = DeleteRepo then []
        else case creates c of None \<Rightarrow> live | Some a \<Rightarrow> live @ [a]) es"
| "remaining_artifacts live (Raised c # es) = remaining_artifacts live es"


section \<open>Concrete inputs\<close>

text \<open>A world in which every query of the service raises.\<close>

definition offline_world :: world where
  "offline_world =
     \<lparr>login = Inl (Exception ''offline''),
      search_issues = (\<lambda>query. Inl (Exception ''offline'')),
      get_repos = Inl (Exception ''offline'')\<rparr>"

text \<open>
  A world in which the login can be read and the service refuses the search and the
  listing of repositories.
\<close>

definition rate_limited_world :: world where
  "rate_limited_world =
     \<lparr>login = Inr ''octocat'',
      search_issues = (\<lambda>query. Inl (Exception ''rate limit'')),
      get_repos = Inl (Exception ''rate limit'')\<rparr>"

text \<open>A world in which every query returns, for an account without pull requests or repositories.\<close>

definition empty_account :: "string \<Rightarrow> world" where
  "empty_account l =
     \<lparr>login = Inr l,
      search_issues = (\<lambda>query. Inr \<lparr>totalCount = Inr 0, found = ([], None)\<rparr>),
      get_repos = Inr ([], None)\<rparr>"

text \<open>A world in which the search reports the given number of merged pull requests.\<close>

definition account_with_merged_prs :: "nat \<Rightarrow> world" where
  "account_with_merged_prs k =
     \<lparr>login = Inr ''octocat'',
      search_issues = (\<lambda>query. Inr \<lparr>totalCount = Inr k, found = ([], None)\<rparr>),
      get_repos = Inr ([], None)\<rparr>"

text \<open>An object like the tracker of a world, except that the check made for one badge raises.\<close>

definition failing_check :: "world \<Rightarrow> string \<Rightarrow> exn \<Rightarrow> tracker" where
  "failing_check w failing_badge e badge_name method_name =
     (if badge_name = failing_badge then Some (Inl e) else BadgeTracker w badge_name method_name)"

text \<open>A service on which one kind of call raises every time, and nothing else does.\<close>

definition fails_on :: "call \<Rightarrow> service" where
  "fails_on failing trace c = (c = failing)"

text \<open>A service on which one kind of call raises the first time only.\<close>

definition fails_once_on :: "call \<Rightarrow> service" where
  "fails_once_on failing trace c = (c = failing \<and> Raised failing \<notin> set trace)"

section \<open>Properties of the progress computation\<close>

subsection \<open>The two loops over the tiers\<close>

lemma sorted_tiers_id:
  "sorted_wrt (<) (map snd ts) \<Longrightarrow> sorted_tiers ts = ts"
  unfolding sorted_tiers_def
  by (rule sort_key_id_if_sorted) (rule strict_sorted_imp_sorted)

lemma achieved_loop_filter:
  "achieved_loop c ts acc =
     (if filter (\<lambda>p. snd p \<le> c) ts = [] then acc
      else Some (fst (last (filter (\<lambda>p. snd p \<le> c) ts))))"
  by (induction c ts acc rule: achieved_loop.induct) auto

lemma achieved_loop_None:
  "achieved_loop r ts None = None \<longleftrightarrow> (\<forall>p \<in> set ts. r < snd p)"
  by (auto simp: achieved_loop_filter filter_empty_conv not_le)

lemma last_greatest:
  "sorted (map f xs) \<Longrightarrow> x \<in> set xs \<Longrightarrow> f x \<le> f (last xs)"
  by (induction xs) (auto split: if_splits)

lemma strict_thresholds_inj:
  fixes ts :: "(string \<times> int) list"
  assumes "sorted_wrt (<) (map snd ts)" "(l, t) \<in> set ts" "(l', t) \<in> set ts"
  shows "l = l'"
proof -
  have "distinct (map snd ts)"
    using assms(1) strict_sorted_iff[of "map snd ts"] by simp
  then have "inj_on snd (set ts)"
    by (simp add: distinct_map)
  from inj_onD[OF this _ assms(2,3)] show ?thesis by simp
qed

lemma achieved_loop_strict:
  fixes ts :: "(string \<times> int) list"
  assumes "sorted_wrt (<) (map snd ts)"
  shows "achieved_loop r ts None = Some l \<longleftrightarrow>
     (\<exists>t. (l, t) \<in> set ts \<and> t \<le> r \<and> (\<forall>p \<in> set ts. snd p \<le> r \<longrightarrow> snd p \<le> t))"
proof -
  let ?F = "filter (\<lambda>p. snd p \<le> r) ts"
  have srt: "sorted (map snd ?F)"
    using assms by (intro sorted_filter strict_sorted_imp_sorted)
  show ?thesis
  proof
    assume "achieved_loop r ts None = Some l"
    then have ne: "?F \<noteq> []" and l: "l = fst (last ?F)"
      by (auto simp: achieved_loop_filter split: if_splits)
    from ne have mem: "last ?F \<in> set ?F" by (rule last_in_set)
    have "\<forall>p \<in> set ts. snd p \<le> r \<longrightarrow> snd p \<le> snd (last ?F)"
      using last_greatest[OF srt] by simp
    with mem l show "\<exists>t. (l, t) \<in> set ts \<and> t \<le> r \<and> (\<forall>p \<in> set ts. snd p \<le> r \<longrightarrow> snd p \<le> t)"
      by (intro exI[of _ "snd (last ?F)"]) auto
  next
    assume "\<exists>t. (l, t) \<in> set ts \<and> t \<le> r \<and> (\<forall>p \<in> set ts. snd p \<le> r \<longrightarrow> snd p \<le> t)"
    then obtain t where t: "(l, t) \<in> set ts" "t \<le> r" "\<forall>p \<in> set ts. snd p \<le> r \<longrightarrow> snd p \<le> t"
      by blast
    then have inF: "(l, t) \<in> set ?F" by simp
    have ne: "?F \<noteq> []" using t(1,2) by (force simp: filter_empty_conv)
    then have mem: "last ?F \<in> set ?F" by (rule last_in_set)
    have "t \<le> snd (last ?F)" using last_greatest[OF srt inF] by simp
    moreover have "snd (last ?F) \<le> t" using mem t(3) by simp
    ultimately have "snd (last ?F) = t" by simp
    moreover have "last ?F \<in> set ts" using mem by simp
    ultimately have "(fst (last ?F), t) \<in> set ts" by (cases "last ?F") simp
    then have "fst (last ?F) = l" using strict_thresholds_inj[OF assms _ t(1)] by blast
    with ne show "achieved_loop r ts None = Some l" by (simp add: achieved_loop_filter)
  qed
qed

lemma next_loop_None:
  "next_loop c ts = None \<longleftrightarrow> (\<forall>p \<in> set ts. snd p \<le> c)"
  by (induction c ts rule: next_loop.induct) auto

lemma next_loop_find:
  "next_loop c ts =
     map_option (\<lambda>p. \<lparr>tier = fst p, count = snd p, needed = snd p - c\<rparr>)
       (find (\<lambda>p. c < snd p) ts)"
  by (induction c ts rule: next_loop.induct) auto

lemma next_loop_Some:
  "next_loop c ts = Some n \<longleftrightarrow>
     (\<exists>i < length ts. ts ! i = (tier n, count n) \<and> c < count n \<and> needed n = count n - c
        \<and> (\<forall>j < i. snd (ts ! j) \<le> c))"
proof
  assume "next_loop c ts = Some n"
  then obtain p where p: "find (\<lambda>p. c < snd p) ts = Some p"
    and n: "n = \<lparr>tier = fst p, count = snd p, needed = snd p - c\<rparr>"
    by (auto simp: next_loop_find)
  from p obtain i where "i < length ts" "c < snd (ts ! i)" "p = ts ! i"
    "\<forall>j < i. \<not> c < snd (ts ! j)"
    by (auto simp: find_Some_iff)
  with n show "\<exists>i < length ts. ts ! i = (tier n, count n) \<and> c < count n \<and> needed n = count n - c
        \<and> (\<forall>j < i. snd (ts ! j) \<le> c)"
    by (intro exI[of _ i]) (auto simp: not_less)
next
  assume "\<exists>i < length ts. ts ! i = (tier n, count n) \<and> c < count n \<and> needed n = count n - c
        \<and> (\<forall>j < i. snd (ts ! j) \<le> c)"
  then obtain i where i: "i < length ts" "ts ! i = (tier n, count n)" "c < count n"
    "needed n = count n - c" "\<forall>j < i. snd (ts ! j) \<le> c"
    by blast
  then have "find (\<lambda>p. c < snd p) ts = Some (tier n, count n)"
    unfolding find_Some_iff by (intro exI[of _ i]) (auto simp: not_less)
  with i(4) show "next_loop c ts = Some n"
    by (simp add: next_loop_find)
qed

subsection \<open>Tiers reached and the next requirement\<close>

text \<open>
  Claim C3. For a badge whose tier thresholds are strictly increasing and any integer
  reading \<open>r\<close> (non-negative or not), the entry computed from the reading has as achieved
  tier the label of the greatest threshold that is at most \<open>r\<close>, and no achieved tier
  exactly when \<open>r\<close> is below every threshold (below the smallest one, when there are
  tiers); its next requirement is the first tier whose threshold exceeds \<open>r\<close>, with
  \<open>needed\<close> the threshold minus \<open>r\<close>, and there is none exactly when \<open>r\<close> is at least every
  threshold (at least the greatest one, when there are tiers). For the tiers
  Default 1, Bronze 16, Silver 128, Gold 1024 and the reading 16 the achieved tier is
  Bronze and the next requirement is Silver, 128, with 112 needed.
\<close>

theorem compute_entry_tiers:
  assumes "sorted_wrt (<) (map snd (tiers badge))"
  shows
    "(achieved_tier (compute_entry badge r) = Some l \<longleftrightarrow>
        (\<exists>t. (l, t) \<in> set (tiers badge) \<and> t \<le> r
           \<and> (\<forall>p \<in> set (tiers badge). snd p \<le> r \<longrightarrow> snd p \<le> t)))
     \<and> (achieved_tier (compute_entry badge r) = None \<longleftrightarrow>
          (\<forall>p \<in> set (tiers badge). r < snd p))
     \<and> (tiers badge \<noteq> [] \<longrightarrow>
          (achieved_tier (compute_entry badge r) = None \<longleftrightarrow> r < Min (snd ` set (tiers badge))))
     \<and> (next_requirement (compute_entry badge r) = Some n \<longleftrightarrow>
          (\<exists>i < length (tiers badge).
              tiers badge ! i = (tier n, count n) \<and> r < count n \<and> needed n = count n - r
              \<and> (\<forall>j < i. snd (tiers badge ! j) \<le> r)))
     \<and> (next_requirement (compute_entry badge r) = None \<longleftrightarrow>
          (\<forall>p \<in> set (tiers badge). snd p \<le> r))
     \<and> (tiers badge \<noteq> [] \<longrightarrow>
          (next_requirement (compute_entry badge r) = None \<longleftrightarrow> Max (snd ` set (tiers badge)) \<le> r))
     \<and> achieved_tier (compute_entry
           \<lparr>description = d,
            tiers = [(''Default'', 1), (''Bronze'', 16), (''Silver'', 128), (''Gold'', 1024)],
            check_method = m\<rparr> 16) = Some ''Bronze''
     \<and> next_requirement (compute_entry
           \<lparr>description = d,
            tiers = [(''Default'', 1), (''Bronze'', 16), (''Silver'', 128), (''Gold'', 1024)],
            check_method = m\<rparr> 16) = Some \<lparr>tier = ''Silver'', count = 128, needed = 112\<rparr>"
proof -
  have a: "achieved_tier (compute_entry badge r) = achieved_loop r (tiers badge) None"
    and b: "next_requirement (compute_entry badge r) = next_loop r (tiers badge)"
    using assms by (simp_all add: compute_entry_def sorted_tiers_id)
  have 1: "achieved_tier (compute_entry badge r) = Some l \<longleftrightarrow>
        (\<exists>t. (l, t) \<in> set (tiers badge) \<and> t \<le> r
           \<and> (\<forall>p \<in> set (tiers badge). snd p \<le> r \<longrightarrow> snd p \<le> t))"
    unfolding a by (rule achieved_loop_strict[OF assms])
  have 2: "achieved_tier (compute_entry badge r) = None \<longleftrightarrow>
          (\<forall>p \<in> set (tiers badge). r < snd p)"
    unfolding a by (rule achieved_loop_None)
  have 3: "tiers badge \<noteq> [] \<longrightarrow>
          (achieved_tier (compute_entry badge r) = None \<longleftrightarrow> r < Min (snd ` set (tiers badge)))"
    unfolding 2 by simp
  have 4: "next_requirement (compute_entry badge r) = Some n \<longleftrightarrow>
          (\<exists>i < length (tiers badge).
              tiers badge ! i = (tier n, count n) \<and> r < count n \<and> needed n = count n - r
              \<and> (\<forall>j < i. snd (tiers badge ! j) \<le> r))"
    unfolding b by (rule next_loop_Some)
  have 5: "next_requirement (compute_entry badge r) = None \<longleftrightarrow>
          (\<forall>p \<in> set (tiers badge). snd p \<le> r)"
    unfolding b by (rule next_loop_None)
  have 6: "tiers badge \<noteq> [] \<longrightarrow>
          (next_requirement (compute_entry badge r) = None \<longleftrightarrow> Max (snd ` set (tiers badge)) \<le> r)"
    unfolding 5 by simp
  have 7: "achieved_tier (compute_entry
           \<lparr>description = d,
            tiers = [(''Default'', 1), (''Bronze'', 16), (''Silver'', 128), (''Gold'', 1024)],
            check_method = m\<rparr> 16) = Some ''Bronze''"
    by (simp add: compute_entry_def sorted_tiers_def)
  have 8: "next_requirement (compute_entry
           \<lparr>description = d,
            tiers = [(''Default'', 1), (''Bronze'', 16), (''Silver'', 128), (''Gold'', 1024)],
            check_method = m\<rparr> 16) = Some \<lparr>tier = ''Silver'', count = 128, needed = 112\<rparr>"
    by (simp add: compute_entry_def sorted_tiers_def)
  from 1 2 3 4 5 6 7 8 show ?thesis by blast
qed

theorem compute_entry_tiers_witness:
  "sorted_wrt (<) (map snd (tiers (snd (badges ! 5))))
   \<and> tiers (snd (badges ! 5)) \<noteq> []
   \<and> achieved_tier (compute_entry (snd (badges ! 5)) 16) = Some ''Bronze''
   \<and> (\<exists>t. (''Bronze'', t) \<in> set (tiers (snd (badges ! 5))) \<and> t \<le> 16
         \<and> (\<forall>p \<in> set (tiers (snd (badges ! 5))). snd p \<le> 16 \<longrightarrow> snd p \<le> t))
   \<and> \<not> 16 < Min (snd ` set (tiers (snd (badges ! 5))))"
proof -
  have h: "sorted_wrt (<) (map snd (tiers (snd (badges ! 5))))"
    by (simp add: badges_def)
  have ne: "tiers (snd (badges ! 5)) \<noteq> []"
    by (simp add: badges_def)
  have v: "achieved_tier (compute_entry (snd (badges ! 5)) 16) = Some ''Bronze''"
    by (simp add: badges_def compute_entry_def sorted_tiers_def)
  from compute_entry_tiers[OF h, of 16 "''Bronze''"] h ne v show ?thesis
    by simp
qed

subsection \<open>The loop over the catalogue\<close>

lemma dict_set_fresh:
  "k \<notin> fst ` set d \<Longrightarrow> dict_set d k v = d @ [(k, v)]"
  by (induction d) auto

lemma progress_loop_distinct:
  "distinct (map fst bs) \<Longrightarrow> fst ` set bs \<inter> fst ` set acc = {} \<Longrightarrow>
   progress_loop self bs acc = acc @ map (\<lambda>(n, b). (n, check_badge self n b)) bs"
proof (induction bs arbitrary: acc)
  case Nil
  then show ?case by simp
next
  case (Cons x bs)
  obtain n b where x: "x = (n, b)" by (cases x)
  from Cons.prems x have fresh: "n \<notin> fst ` set acc" by auto
  let ?acc = "acc @ [(n, check_badge self n b)]"
  from Cons.prems x have d: "distinct (map fst bs)" and "n \<notin> fst ` set bs" by auto
  with Cons.prems x have "fst ` set bs \<inter> fst ` set ?acc = {}" by auto
  from Cons.IH[OF d this] fresh x show ?case
    by (simp add: dict_set_fresh)
qed

lemma distinct_badges: "distinct (map fst badges)"
  by (simp add: badges_def)

lemma get_badge_progress_of_map:
  "get_badge_progress_of self badges = map (\<lambda>(n, b). (n, check_badge self n b)) badges"
  unfolding get_badge_progress_of_def
  using progress_loop_distinct[OF distinct_badges, of "[]" self] by simp

lemma progress_keys:
  "map fst (get_badge_progress_of self badges) = map fst badges"
  by (simp add: get_badge_progress_of_map case_prod_unfold comp_def)

lemma map_of_checked:
  "distinct (map fst bs) \<Longrightarrow> (n, b) \<in> set bs \<Longrightarrow>
   map_of (map (\<lambda>(n, b). (n, check_badge self n b)) bs) n = Some (check_badge self n b)"
  by (induction bs) (auto simp: rev_image_eqI)

lemma progress_entry_of_badge:
  "(n, b) \<in> set badges \<Longrightarrow>
   map_of (get_badge_progress_of self badges) n = Some (check_badge self n b)"
  unfolding get_badge_progress_of_map by (rule map_of_checked[OF distinct_badges])

lemma progress_entry_absent:
  "n \<notin> fst ` set badges \<Longrightarrow> map_of (get_badge_progress_of self badges) n = None"
  using progress_keys[of self] by (metis map_of_eq_None_iff set_map)

subsection \<open>Isolation of one badge from another\<close>

text \<open>
  Claim C9. Let two tracker objects behave alike except in the check made for badge
  \<open>A\<close>, where the second one may raise. Then the report of the second one still has one
  entry for every badge of the catalogue, in catalogue order, each entry being the one
  computed from that badge's own check, and for every badge \<open>B\<close> other than \<open>A\<close> the
  entry is the same in both reports.
\<close>

theorem check_failure_isolated:
  assumes "\<forall>B m. B \<noteq> A \<longrightarrow> self' B m = self B m"
  shows "map fst (get_badge_progress_of self' badges) = map fst badges
     \<and> (\<forall>(B, badge) \<in> set badges.
           map_of (get_badge_progress_of self' badges) B = Some (check_badge self' B badge))
     \<and> (\<forall>B. B \<noteq> A \<longrightarrow>
           map_of (get_badge_progress_of self' badges) B = map_of (get_badge_progress_of self badges) B)"
proof -
  have same: "map_of (get_badge_progress_of self' badges) B = map_of (get_badge_progress_of self badges) B"
    if "B \<noteq> A" for B
  proof (cases "B \<in> fst ` set badges")
    case True
    then obtain badge where mem: "(B, badge) \<in> set badges" by auto
    have "check_badge self' B badge = check_badge self B badge"
      using assms that by (simp add: check_badge_def)
    then show ?thesis
      by (simp add: progress_entry_of_badge[OF mem])
  next
    case False
    then show ?thesis by (simp add: progress_entry_absent)
  qed
  have each: "\<forall>(B, badge) \<in> set badges.
      map_of (get_badge_progress_of self' badges) B = Some (check_badge self' B badge)"
    by (auto simp: progress_entry_of_badge)
  from same each progress_keys[of self'] show ?thesis by blast
qed

theorem check_failure_isolated_witness:
  "map fst (get_badge_progress_of (failing_check offline_world ''Quickdraw'' (Exception ''boom'')) badges)
       = map fst badges
   \<and> map_of (get_badge_progress_of (failing_check offline_world ''Quickdraw'' (Exception ''boom'')) badges) ''YOLO''
       = map_of (get_badge_progress_of (BadgeTracker offline_world) badges) ''YOLO''
   \<and> map_option error
        (map_of (get_badge_progress_of (failing_check offline_world ''Quickdraw'' (Exception ''boom'')) badges)
           ''Quickdraw'') = Some (Some ''boom'')"
proof -
  have h: "\<forall>B m. B \<noteq> ''Quickdraw'' \<longrightarrow>
      failing_check offline_world ''Quickdraw'' (Exception ''boom'') B m = BadgeTracker offline_world B m"
    by (simp add: failing_check_def)
  have q: "(''Quickdraw'', snd (badges ! 3)) \<in> set badges"
    by (simp add: badges_def)
  have e: "map_option error
        (map_of (get_badge_progress_of (failing_check offline_world ''Quickdraw'' (Exception ''boom'')) badges)
           ''Quickdraw'') = Some (Some ''boom'')"
    by (simp add: progress_entry_of_badge[OF q] check_badge_def failing_check_def error_entry_def)
  from check_failure_isolated[OF h] e show ?thesis
    by simp
qed

subsection \<open>The metric checks\<close>

lemma repos_loop_names:
  "repos_loop repos prs = repos \<union> {full_name. \<exists>pr \<in> set prs. repository pr = Some full_name}"
  by (induction repos prs rule: repos_loop.induct) (auto split: option.splits)

lemma max_stars_loop_fold:
  "max_stars_loop max_stars rs =
     fold max (map stargazers_count (filter (\<lambda>r. \<not> is_private r) rs)) max_stars"
  by (induction max_stars rs rule: max_stars_loop.induct) (auto simp: max_def)

lemma max_stars_loop_Max:
  "max_stars_loop max_stars rs =
     Max (insert max_stars (stargazers_count ` {r \<in> set rs. \<not> is_private r}))"
proof -
  let ?ys = "map stargazers_count (filter (\<lambda>r. \<not> is_private r) rs)"
  have "Max (set (max_stars # ?ys)) = fold max ?ys max_stars"
    by (rule Max.set_eq_fold)
  moreover have "set (max_stars # ?ys) = insert max_stars (stargazers_count ` {r \<in> set rs. \<not> is_private r})"
    by simp
  ultimately show ?thesis
    by (simp only: max_stars_loop_fold)
qed

lemma BadgeTracker_methods:
  "BadgeTracker w b ''count_merged_prs'' = Some (Inr (count_merged_prs w))"
  "BadgeTracker w b ''count_repos_with_merged_prs'' = Some (Inr (count_repos_with_merged_prs w))"
  "BadgeTracker w b ''count_max_stars'' = Some (Inr (count_max_stars w))"
  "BadgeTracker w b ''check_quickdraw'' = Some (Inr (check_quickdraw w))"
  "BadgeTracker w b ''count_coauthored_commits'' = Some (Inr (count_coauthored_commits w))"
  "BadgeTracker w b ''count_discussion_answers'' = Some (Inr (count_discussion_answers w))"
  "BadgeTracker w b ''check_yolo_merges'' = Some (Inr (check_yolo_merges w))"
  "BadgeTracker w b ''check_sponsorships'' = Some (Inr (check_sponsorships w))"
  by (simp_all add: BadgeTracker_def)

lemma checks_nonneg:
  "0 \<le> count_merged_prs w" "0 \<le> count_repos_with_merged_prs w" "0 \<le> count_max_stars w"
  by (simp_all add: count_merged_prs_def count_repos_with_merged_prs_def count_max_stars_def
      split: sum.splits)

lemma checks_offline:
  "login w = Inl e \<Longrightarrow> count_merged_prs w = 0"
  "login w = Inl e \<Longrightarrow> count_repos_with_merged_prs w = 0"
  "get_repos w = Inl e \<Longrightarrow> count_max_stars w = 0"
  by (simp_all add: count_merged_prs_def count_repos_with_merged_prs_def count_max_stars_def)

lemma checks_search_fails:
  "login w = Inr l \<Longrightarrow> search_issues w (merged_query l) = Inl e \<Longrightarrow> count_merged_prs w = 0"
  "login w = Inr l \<Longrightarrow> search_issues w (merged_query l) = Inl e \<Longrightarrow> count_repos_with_merged_prs w = 0"
  by (simp_all add: count_merged_prs_def count_repos_with_merged_prs_def)

lemma BadgeTracker_no_failure_seen:
  assumes "login w = Inl e" "get_repos w = Inl e'"
  shows "BadgeTracker w = BadgeTracker (empty_account l)"
proof (intro ext)
  fix b m
  have "count_merged_prs (empty_account l) = 0" "count_repos_with_merged_prs (empty_account l) = 0"
    "count_max_stars (empty_account l) = 0"
    by (simp_all add: empty_account_def count_merged_prs_def count_repos_with_merged_prs_def
        count_max_stars_def)
  with assms show "BadgeTracker w b m = BadgeTracker (empty_account l) b m"
    by (simp add: BadgeTracker_def checks_offline check_quickdraw_def count_coauthored_commits_def
        count_discussion_answers_def check_yolo_merges_def check_sponsorships_def)
qed

text \<open>
  Claim C10. In every world, each of the eight check methods returns (the call never
  raises) and its value is a non-negative integer; the five checks of signals that
  cannot be observed return 0; the three checks that query the service return 0 when
  the query raises at once, the total count when it is available, and otherwise what the
  loop had gathered when the listing broke off: the result for a listing that raises
  after some items is the result for the same items listed to the end, namely the number
  of distinct repositories among the first hundred hits, and the greatest star count of
  a public repository (0 when there is none). A world in which the queries raise gives
  the same outcome for every method as an account with no pull request and no repository.
\<close>

theorem check_methods_total:
  "(BadgeTracker w b ''count_merged_prs'' = Some (Inr (count_merged_prs w))
      \<and> 0 \<le> count_merged_prs w)
   \<and> (BadgeTracker w b ''count_repos_with_merged_prs'' = Some (Inr (count_repos_with_merged_prs w))
      \<and> 0 \<le> count_repos_with_merged_prs w)
   \<and> (BadgeTracker w b ''count_max_stars'' = Some (Inr (count_max_stars w))
      \<and> 0 \<le> count_max_stars w)
   \<and> (BadgeTracker w b ''check_quickdraw'' = Some (Inr 0) \<and> check_quickdraw w = 0)
   \<and> (BadgeTracker w b ''count_coauthored_commits'' = Some (Inr 0) \<and> count_coauthored_commits w = 0)
   \<and> (BadgeTracker w b ''count_discussion_answers'' = Some (Inr 0) \<and> count_discussion_answers w = 0)
   \<and> (BadgeTracker w b ''check_yolo_merges'' = Some (Inr 0) \<and> check_yolo_merges w = 0)
   \<and> (BadgeTracker w b ''check_sponsorships'' = Some (Inr 0) \<and> check_sponsorships w = 0)
   \<and> (login w = Inl e \<longrightarrow> count_merged_prs w = 0 \<and> count_repos_with_merged_prs w = 0)
   \<and> (login w = Inr l \<and> search_issues w (merged_query l) = Inl e \<longrightarrow>
        count_merged_prs w = 0 \<and> count_repos_with_merged_prs w = 0)
   \<and> (login w = Inr l \<and> search_issues w (merged_query l) = Inr prs \<longrightarrow>
        count_merged_prs w = (case totalCount prs of Inl x \<Rightarrow> 0 | Inr k \<Rightarrow> int k)
        \<and> count_repos_with_merged_prs w =
            int (card {full_name. \<exists>pr \<in> set (take 100 (fst (found prs))). repository pr = Some full_name})
        \<and> count_repos_with_merged_prs (w\<lparr>search_issues := (\<lambda>q. Inr (prs\<lparr>found := (fst (found prs), Some e)\<rparr>))\<rparr>)
            = count_repos_with_merged_prs (w\<lparr>search_issues := (\<lambda>q. Inr (prs\<lparr>found := (fst (found prs), None)\<rparr>))\<rparr>))
   \<and> (get_repos w = Inl e \<longrightarrow> count_max_stars w = 0)
   \<and> (get_repos w = Inr (rs, broken) \<longrightarrow>
        count_max_stars w = int (Max (insert 0 (stargazers_count ` {r \<in> set rs. \<not> is_private r})))
        \<and> count_max_stars w = count_max_stars (w\<lparr>get_repos := Inr (rs, None)\<rparr>))
   \<and> (login w = Inl e \<and> get_repos w = Inl e' \<longrightarrow> BadgeTracker w = BadgeTracker (empty_account l))"
proof -
  have zero: "check_quickdraw w = 0" "count_coauthored_commits w = 0" "count_discussion_answers w = 0"
    "check_yolo_merges w = 0" "check_sponsorships w = 0"
    by (simp_all add: check_quickdraw_def count_coauthored_commits_def count_discussion_answers_def
        check_yolo_merges_def check_sponsorships_def)
  have c1: "BadgeTracker w b ''count_merged_prs'' = Some (Inr (count_merged_prs w))
      \<and> 0 \<le> count_merged_prs w"
    by (simp add: BadgeTracker_methods checks_nonneg)
  have c2: "BadgeTracker w b ''count_repos_with_merged_prs'' = Some (Inr (count_repos_with_merged_prs w))
      \<and> 0 \<le> count_repos_with_merged_prs w"
    by (simp add: BadgeTracker_methods checks_nonneg)
  have c3: "BadgeTracker w b ''count_max_stars'' = Some (Inr (count_max_stars w))
      \<and> 0 \<le> count_max_stars w"
    by (simp add: BadgeTracker_methods checks_nonneg)
  have c4: "BadgeTracker w b ''check_quickdraw'' = Some (Inr 0) \<and> check_quickdraw w = 0"
    by (simp add: BadgeTracker_methods zero)
  have c5: "BadgeTracker w b ''count_coauthored_commits'' = Some (Inr 0) \<and> count_coauthored_commits w = 0"
    by (simp add: BadgeTracker_methods zero)
  have c6: "BadgeTracker w b ''count_discussion_answers'' = Some (Inr 0) \<and> count_discussion_answers w = 0"
    by (simp add: BadgeTracker_methods zero)
  have c7: "BadgeTracker w b ''check_yolo_merges'' = Some (Inr 0) \<and> check_yolo_merges w = 0"
    by (simp add: BadgeTracker_methods zero)
  have c8: "BadgeTracker w b ''check_sponsorships'' = Some (Inr 0) \<and> check_sponsorships w = 0"
    by (simp add: BadgeTracker_methods zero)
  have c9: "login w = Inl e \<longrightarrow> count_merged_prs w = 0 \<and> count_repos_with_merged_prs w = 0"
    by (simp add: checks_offline)
  have c10: "login w = Inr l \<and> search_issues w (merged_query l) = Inl e \<longrightarrow>
        count_merged_prs w = 0 \<and> count_repos_with_merged_prs w = 0"
    by (simp add: checks_search_fails)
  have c11: "login w = Inr l \<and> search_issues w (merged_query l) = Inr prs \<longrightarrow>
        count_merged_prs w = (case totalCount prs of Inl x \<Rightarrow> 0 | Inr k \<Rightarrow> int k)
        \<and> count_repos_with_merged_prs w =
            int (card {full_name. \<exists>pr \<in> set (take 100 (fst (found prs))). repository pr = Some full_name})
        \<and> count_repos_with_merged_prs (w\<lparr>search_issues := (\<lambda>q. Inr (prs\<lparr>found := (fst (found prs), Some e)\<rparr>))\<rparr>)
            = count_repos_with_merged_prs (w\<lparr>search_issues := (\<lambda>q. Inr (prs\<lparr>found := (fst (found prs), None)\<rparr>))\<rparr>)"
    by (simp add: count_merged_prs_def count_repos_with_merged_prs_def repos_loop_names)
  have c12: "get_repos w = Inl e \<longrightarrow> count_max_stars w = 0"
    by (simp add: checks_offline)
  have c13: "get_repos w = Inr (rs, broken) \<longrightarrow>
        count_max_stars w = int (Max (insert 0 (stargazers_count ` {r \<in> set rs. \<not> is_private r})))
        \<and> count_max_stars w = count_max_stars (w\<lparr>get_repos := Inr (rs, None)\<rparr>)"
    by (simp add: count_max_stars_def max_stars_loop_Max)
  have c14: "login w = Inl e \<and> get_repos w = Inl e' \<longrightarrow> BadgeTracker w = BadgeTracker (empty_account l)"
    using BadgeTracker_no_failure_seen by blast
  show ?thesis
    by (intro conjI c1 c2 c3 c4 c5 c6 c7 c8 c9 c10 c11 c12 c13 c14)
qed

theorem check_methods_total_witness:
  "login offline_world = Inl (Exception ''offline'')
   \<and> get_repos offline_world = Inl (Exception ''offline'')
   \<and> count_merged_prs offline_world = 0
   \<and> count_repos_with_merged_prs offline_world = 0
   \<and> count_max_stars offline_world = 0
   \<and> BadgeTracker offline_world = BadgeTracker (empty_account ''octocat'')"
proof -
  have h: "login offline_world = Inl (Exception ''offline'')"
    "get_repos offline_world = Inl (Exception ''offline'')"
    by (simp_all add: offline_world_def)
  from check_methods_total[where w = offline_world and e = "Exception ''offline''"
      and e' = "Exception ''offline''" and l = "''octocat''"] h
  show ?thesis
    by simp
qed

subsection \<open>Readings that could not be observed\<close>

lemma badges_cases:
  "(n, badge) \<in> set badges \<Longrightarrow>
     (n, badge) = badges ! 0 \<or> (n, badge) = badges ! 1 \<or> (n, badge) = badges ! 2
   \<or> (n, badge) = badges ! 3 \<or> (n, badge) = badges ! 4 \<or> (n, badge) = badges ! 5
   \<or> (n, badge) = badges ! 6 \<or> (n, badge) = badges ! 7 \<or> (n, badge) = badges ! 8"
  by (auto simp: badges_def)

lemma zero_entry:
  assumes "(n, badge) \<in> set badges"
  shows "compute_entry badge 0 =
     \<lparr>current = 0, achieved_tier = None,
      next_requirement =
        Some \<lparr>tier = fst (hd (tiers badge)), count = snd (hd (tiers badge)),
              needed = snd (hd (tiers badge))\<rparr>,
      p_description = description badge, p_tiers = tiers badge, error = None\<rparr>"
  using badges_cases[OF assms]
  by (elim disjE) (simp_all add: badges_def compute_entry_def sorted_tiers_def)

lemma report_returned:
  "login w = Inr l \<Longrightarrow> get_badge_progress w = Inr (get_badge_progress_of (BadgeTracker w) badges)"
  by (simp add: get_badge_progress_def)

lemma report_raises:
  "login w = Inl e \<Longrightarrow> get_badge_progress w = Inl e"
  by (simp add: get_badge_progress_def)

lemma report_cases:
  assumes "get_badge_progress w = Inr progress"
  obtains l where "login w = Inr l" "progress = get_badge_progress_of (BadgeTracker w) badges"
  using assms by (auto simp: get_badge_progress_def split: sum.splits)

lemma tracker_entry:
  assumes "(n, badge) \<in> set badges" "BadgeTracker w n (check_method badge) = Some (Inr c)"
  shows "map_of (get_badge_progress_of (BadgeTracker w) badges) n = Some (compute_entry badge c)"
  unfolding progress_entry_of_badge[OF assms(1)]
  using assms(2) by (simp add: check_badge_def)

lemma checks_first_item_fails:
  "login w = Inr l \<Longrightarrow> search_issues w (merged_query l) = Inr prs \<Longrightarrow> totalCount prs = Inl e \<Longrightarrow>
     count_merged_prs w = 0"
  "login w = Inr l \<Longrightarrow> search_issues w (merged_query l) = Inr prs \<Longrightarrow> found prs = ([], Some e) \<Longrightarrow>
     count_repos_with_merged_prs w = 0"
  "get_repos w = Inr ([], Some e) \<Longrightarrow> count_max_stars w = 0"
  by (simp_all add: count_merged_prs_def count_repos_with_merged_prs_def count_max_stars_def)

text \<open>
  Claim C1, as amended. The code has no unknown marker. In every report that
  \<open>get_badge_progress\<close> returns, the entry of a badge is the entry of the reading 0
  whenever the signal of the badge cannot be observed (the five checks that return 0
  whatever the world is) or its query fails before anything is counted: the search
  raises, reading the total count raises, the listing of the hits or of the
  repositories breaks before its first item, or listing the repositories raises; the
  check catches the exception and returns the 0 it started from. That entry has
  \<open>current\<close> 0, no achieved tier, as next requirement the first tier of the badge with as
  many needed as its threshold, and no \<open>error\<close> key. The entry without achieved tier and
  without next requirement is the one that the handler writes for a check that raised;
  it keeps the text of the exception.
\<close>

theorem unobserved_reading_is_zero:
  assumes "get_badge_progress w = Inr progress"
  shows "\<forall>(n, badge) \<in> set badges.
      (check_method badge \<in> {''check_quickdraw'', ''count_coauthored_commits'',
           ''count_discussion_answers'', ''check_yolo_merges'', ''check_sponsorships''} \<longrightarrow>
         map_of progress n = Some (compute_entry badge 0))
    \<and> (login w = Inr l \<and> search_issues w (merged_query l) = Inl e
         \<and> check_method badge \<in> {''count_merged_prs'', ''count_repos_with_merged_prs''} \<longrightarrow>
         map_of progress n = Some (compute_entry badge 0))
    \<and> (login w = Inr l \<and> search_issues w (merged_query l) = Inr prs \<and> totalCount prs = Inl e
         \<and> check_method badge = ''count_merged_prs'' \<longrightarrow>
         map_of progress n = Some (compute_entry badge 0))
    \<and> (login w = Inr l \<and> search_issues w (merged_query l) = Inr prs \<and> found prs = ([], Some e)
         \<and> check_method badge = ''count_repos_with_merged_prs'' \<longrightarrow>
         map_of progress n = Some (compute_entry badge 0))
    \<and> (get_repos w = Inl e \<and> check_method badge = ''count_max_stars'' \<longrightarrow>
         map_of progress n = Some (compute_entry badge 0))
    \<and> (get_repos w = Inr ([], Some e) \<and> check_method badge = ''count_max_stars'' \<longrightarrow>
         map_of progress n = Some (compute_entry badge 0))
    \<and> compute_entry badge 0 =
         \<lparr>current = 0, achieved_tier = None,
          next_requirement =
            Some \<lparr>tier = fst (hd (tiers badge)), count = snd (hd (tiers badge)),
                  needed = snd (hd (tiers badge))\<rparr>,
          p_description = description badge, p_tiers = tiers badge, error = None\<rparr>
    \<and> achieved_tier (error_entry badge x) = None
    \<and> next_requirement (error_entry badge x) = None
    \<and> error (error_entry badge x) = Some (str x)"
proof (intro ballI, clarify)
  fix n badge
  assume mem: "(n, badge) \<in> set badges"
  from assms obtain l' where progress: "progress = get_badge_progress_of (BadgeTracker w) badges"
    by (rule report_cases)
  have entry: "map_of progress n = Some (compute_entry badge 0)"
    if "BadgeTracker w n (check_method badge) = Some (Inr 0)"
    unfolding progress using that by (rule tracker_entry[OF mem])
  have zero: "check_quickdraw w = 0" "count_coauthored_commits w = 0" "count_discussion_answers w = 0"
    "check_yolo_merges w = 0" "check_sponsorships w = 0"
    by (simp_all add: check_quickdraw_def count_coauthored_commits_def count_discussion_answers_def
        check_yolo_merges_def check_sponsorships_def)
  have a: "check_method badge \<in> {''check_quickdraw'', ''count_coauthored_commits'',
           ''count_discussion_answers'', ''check_yolo_merges'', ''check_sponsorships''} \<longrightarrow>
         map_of progress n = Some (compute_entry badge 0)"
  proof
    assume "check_method badge \<in> {''check_quickdraw'', ''count_coauthored_commits'',
           ''count_discussion_answers'', ''check_yolo_merges'', ''check_sponsorships''}"
    then have "BadgeTracker w n (check_method badge) = Some (Inr 0)"
      using BadgeTracker_methods[of w n] zero by auto
    then show "map_of progress n = Some (compute_entry badge 0)" by (rule entry)
  qed
  have b: "login w = Inr l \<and> search_issues w (merged_query l) = Inl e
         \<and> check_method badge \<in> {''count_merged_prs'', ''count_repos_with_merged_prs''} \<longrightarrow>
         map_of progress n = Some (compute_entry badge 0)"
  proof
    assume "login w = Inr l \<and> search_issues w (merged_query l) = Inl e
         \<and> check_method badge \<in> {''count_merged_prs'', ''count_repos_with_merged_prs''}"
    then have "BadgeTracker w n (check_method badge) = Some (Inr 0)"
      using BadgeTracker_methods[of w n] checks_search_fails[of w l e] by auto
    then show "map_of progress n = Some (compute_entry badge 0)" by (rule entry)
  qed
  have c: "login w = Inr l \<and> search_issues w (merged_query l) = Inr prs \<and> totalCount prs = Inl e
         \<and> check_method badge = ''count_merged_prs'' \<longrightarrow>
         map_of progress n = Some (compute_entry badge 0)"
  proof
    assume "login w = Inr l \<and> search_issues w (merged_query l) = Inr prs \<and> totalCount prs = Inl e
         \<and> check_method badge = ''count_merged_prs''"
    then have "BadgeTracker w n (check_method badge) = Some (Inr 0)"
      using BadgeTracker_methods[of w n] checks_first_item_fails(1)[of w l prs e] by auto
    then show "map_of progress n = Some (compute_entry badge 0)" by (rule entry)
  qed
  have d: "login w = Inr l \<and> search_issues w (merged_query l) = Inr prs \<and> found prs = ([], Some e)
         \<and> check_method badge = ''count_repos_with_merged_prs'' \<longrightarrow>
         map_of progress n = Some (compute_entry badge 0)"
  proof
    assume "login w = Inr l \<and> search_issues w (merged_query l) = Inr prs \<and> found prs = ([], Some e)
         \<and> check_method badge = ''count_repos_with_merged_prs''"
    then have "BadgeTracker w n (check_method badge) = Some (Inr 0)"
      using BadgeTracker_methods[of w n] checks_first_item_fails(2)[of w l prs e] by auto
    then show "map_of progress n = Some (compute_entry badge 0)" by (rule entry)
  qed
  have f: "get_repos w = Inl e \<and> check_method badge = ''count_max_stars'' \<longrightarrow>
         map_of progress n = Some (compute_entry badge 0)"
  proof
    assume "get_repos w = Inl e \<and> check_method badge = ''count_max_stars''"
    then have "BadgeTracker w n (check_method badge) = Some (Inr 0)"
      using BadgeTracker_methods[of w n] checks_offline(3)[of w e] by auto
    then show "map_of progress n = Some (compute_entry badge 0)" by (rule entry)
  qed
  have g: "get_repos w = Inr ([], Some e) \<and> check_method badge = ''count_max_stars'' \<longrightarrow>
         map_of progress n = Some (compute_entry badge 0)"
  proof
    assume "get_repos w = Inr ([], Some e) \<and> check_method badge = ''count_max_stars''"
    then have "BadgeTracker w n (check_method badge) = Some (Inr 0)"
      using BadgeTracker_methods[of w n] checks_first_item_fails(3)[of w e] by auto
    then show "map_of progress n = Some (compute_entry badge 0)" by (rule entry)
  qed
  have h: "achieved_tier (error_entry badge x) = None"
    "next_requirement (error_entry badge x) = None"
    "error (error_entry badge x) = Some (str x)"
    by (simp_all add: error_entry_def)
  show "(check_method badge \<in> {''check_quickdraw'', ''count_coauthored_commits'',
           ''count_discussion_answers'', ''check_yolo_merges'', ''check_sponsorships''} \<longrightarrow>
         map_of progress n = Some (compute_entry badge 0))
    \<and> (login w = Inr l \<and> search_issues w (merged_query l) = Inl e
         \<and> check_method badge \<in> {''count_merged_prs'', ''count_repos_with_merged_prs''} \<longrightarrow>
         map_of progress n = Some (compute_entry badge 0))
    \<and> (login w = Inr l \<and> search_issues w (merged_query l) = Inr prs \<and> totalCount prs = Inl e
         \<and> check_method badge = ''count_merged_prs'' \<longrightarrow>
         map_of progress n = Some (compute_entry badge 0))
    \<and> (login w = Inr l \<and> search_issues w (merged_query l) = Inr prs \<and> found prs = ([], Some e)
         \<and> check_method badge = ''count_repos_with_merged_prs'' \<longrightarrow>
         map_of progress n = Some (compute_entry badge 0))
    \<and> (get_repos w = Inl e \<and> check_method badge = ''count_max_stars'' \<longrightarrow>
         map_of progress n = Some (compute_entry badge 0))
    \<and> (get_repos w = Inr ([], Some e) \<and> check_method badge = ''count_max_stars'' \<longrightarrow>
         map_of progress n = Some (compute_entry badge 0))
    \<and> compute_entry badge 0 =
         \<lparr>current = 0, achieved_tier = None,
          next_requirement =
            Some \<lparr>tier = fst (hd (tiers badge)), count = snd (hd (tiers badge)),
                  needed = snd (hd (tiers badge))\<rparr>,
          p_description = description badge, p_tiers = tiers badge, error = None\<rparr>
    \<and> achieved_tier (error_entry badge x) = None
    \<and> next_requirement (error_entry badge x) = None
    \<and> error (error_entry badge x) = Some (str x)"
    by (intro conjI a b c d f g zero_entry[OF mem] h)
qed

theorem unobserved_reading_is_zero_witness:
  "get_badge_progress rate_limited_world =
     Inr (get_badge_progress_of (BadgeTracker rate_limited_world) badges)
   \<and> login rate_limited_world = Inr ''octocat''
   \<and> search_issues rate_limited_world (merged_query ''octocat'') = Inl (Exception ''rate limit'')
   \<and> (''Heart On Your Sleeve'', snd (badges ! 0)) \<in> set badges
   \<and> check_method (snd (badges ! 0)) \<in> {''count_merged_prs'', ''count_repos_with_merged_prs''}
   \<and> map_of (get_badge_progress_of (BadgeTracker rate_limited_world) badges) ''Heart On Your Sleeve''
       = Some (compute_entry (snd (badges ! 0)) 0)
   \<and> next_requirement (compute_entry (snd (badges ! 0)) 0)
       = Some \<lparr>tier = ''Default'', count = 1, needed = 1\<rparr>"
proof -
  have r: "get_badge_progress rate_limited_world =
     Inr (get_badge_progress_of (BadgeTracker rate_limited_world) badges)"
    by (simp add: get_badge_progress_def rate_limited_world_def)
  have mem: "(''Heart On Your Sleeve'', snd (badges ! 0)) \<in> set badges"
    by (simp add: badges_def)
  have h: "login rate_limited_world = Inr ''octocat''"
    "search_issues rate_limited_world (merged_query ''octocat'') = Inl (Exception ''rate limit'')"
    by (simp_all add: rate_limited_world_def)
  have m: "check_method (snd (badges ! 0)) \<in> {''count_merged_prs'', ''count_repos_with_merged_prs''}"
    by (simp add: badges_def)
  have t: "hd (tiers (snd (badges ! 0))) = (''Default'', 1)"
    by (simp add: badges_def)
  from unobserved_reading_is_zero[OF r, where l = "''octocat''" and e = "Exception ''rate limit''"] mem
  have "(login rate_limited_world = Inr ''octocat''
         \<and> search_issues rate_limited_world (merged_query ''octocat'') = Inl (Exception ''rate limit'')
         \<and> check_method (snd (badges ! 0)) \<in> {''count_merged_prs'', ''count_repos_with_merged_prs''} \<longrightarrow>
         map_of (get_badge_progress_of (BadgeTracker rate_limited_world) badges) ''Heart On Your Sleeve''
           = Some (compute_entry (snd (badges ! 0)) 0))
    \<and> compute_entry (snd (badges ! 0)) 0 =
         \<lparr>current = 0, achieved_tier = None,
          next_requirement =
            Some \<lparr>tier = fst (hd (tiers (snd (badges ! 0)))), count = snd (hd (tiers (snd (badges ! 0)))),
                  needed = snd (hd (tiers (snd (badges ! 0))))\<rparr>,
          p_description = description (snd (badges ! 0)), p_tiers = tiers (snd (badges ! 0)),
          error = None\<rparr>"
    by fast
  with r mem h m t show ?thesis
    by simp
qed

text \<open>
  Where claim C1 fails as it was stated: in a world whose login can be read and whose
  queries are refused, \<open>get_badge_progress\<close> returns a report in which the entry of a
  badge that cannot be observed and the entry of a badge whose query failed both have a
  next requirement, the count 0 and no \<open>error\<close> key.
\<close>

theorem unknown_reading_counterexample:
  "get_badge_progress rate_limited_world =
     Inr (get_badge_progress_of (BadgeTracker rate_limited_world) badges)
   \<and> map_option next_requirement
       (map_of (get_badge_progress_of (BadgeTracker rate_limited_world) badges) ''Public Sponsor'')
     = Some (Some \<lparr>tier = ''Default'', count = 1, needed = 1\<rparr>)
   \<and> map_option current
       (map_of (get_badge_progress_of (BadgeTracker rate_limited_world) badges) ''Public Sponsor'')
     = Some 0
   \<and> map_option error
       (map_of (get_badge_progress_of (BadgeTracker rate_limited_world) badges) ''Public Sponsor'')
     = Some None
   \<and> map_option next_requirement
       (map_of (get_badge_progress_of (BadgeTracker rate_limited_world) badges) ''Heart On Your Sleeve'')
     = Some (Some \<lparr>tier = ''Default'', count = 1, needed = 1\<rparr>)
   \<and> map_option current
       (map_of (get_badge_progress_of (BadgeTracker rate_limited_world) badges) ''Heart On Your Sleeve'')
     = Some 0
   \<and> map_option error
       (map_of (get_badge_progress_of (BadgeTracker rate_limited_world) badges) ''Heart On Your Sleeve'')
     = Some None"
proof -
  have r: "get_badge_progress rate_limited_world =
     Inr (get_badge_progress_of (BadgeTracker rate_limited_world) badges)"
    by (simp add: get_badge_progress_def rate_limited_world_def)
  have s: "(''Public Sponsor'', snd (badges ! 8)) \<in> set badges"
    and h: "(''Heart On Your Sleeve'', snd (badges ! 0)) \<in> set badges"
    by (simp_all add: badges_def)
  have sm: "BadgeTracker rate_limited_world ''Public Sponsor'' (check_method (snd (badges ! 8)))
      = Some (Inr 0)"
    by (simp add: badges_def BadgeTracker_def check_sponsorships_def)
  have hm: "BadgeTracker rate_limited_world ''Heart On Your Sleeve'' (check_method (snd (badges ! 0)))
      = Some (Inr 0)"
    by (simp add: badges_def BadgeTracker_def count_merged_prs_def rate_limited_world_def)
  have se: "compute_entry (snd (badges ! 8)) 0 =
      \<lparr>current = 0, achieved_tier = None,
       next_requirement = Some \<lparr>tier = ''Default'', count = 1, needed = 1\<rparr>,
       p_description = description (snd (badges ! 8)), p_tiers = tiers (snd (badges ! 8)),
       error = None\<rparr>"
    by (simp add: badges_def compute_entry_def sorted_tiers_def)
  have he: "compute_entry (snd (badges ! 0)) 0 =
      \<lparr>current = 0, achieved_tier = None,
       next_requirement = Some \<lparr>tier = ''Default'', count = 1, needed = 1\<rparr>,
       p_description = description (snd (badges ! 0)), p_tiers = tiers (snd (badges ! 0)),
       error = None\<rparr>"
    by (simp add: badges_def compute_entry_def sorted_tiers_def)
  show ?thesis
    by (simp add: r tracker_entry[OF s sm] tracker_entry[OF h hm] se he)
qed

subsection \<open>Achieved tier and next requirement of one entry\<close>

lemma last_tier_reached:
  fixes ts :: "(string \<times> int) list"
  assumes "sorted_wrt (<) (map snd ts)" "ts \<noteq> []" "\<forall>p \<in> set ts. snd p \<le> r"
  shows "achieved_loop r ts None = Some (fst (last ts))"
proof -
  have "filter (\<lambda>p. snd p \<le> r) ts = ts"
    using assms(3) by (simp add: filter_id_conv)
  with assms(2) show ?thesis
    by (simp add: achieved_loop_filter)
qed

lemma next_loop_above:
  "next_loop r ts = Some n \<Longrightarrow> r < count n \<and> (tier n, count n) \<in> set ts \<and> needed n = count n - r"
  by (induction r ts rule: next_loop.induct) (auto split: if_splits)

lemma compute_entry_exactly_one:
  assumes "sorted_wrt (<) (map snd (tiers badge))" "tiers badge \<noteq> []"
  shows
    "((achieved_tier (compute_entry badge r) = Some (fst (last (tiers badge)))
        \<and> next_requirement (compute_entry badge r) = None)
      \<noteq> (\<exists>n. next_requirement (compute_entry badge r) = Some n \<and> r < count n))
     \<and> \<not> (achieved_tier (compute_entry badge r) = None
          \<and> next_requirement (compute_entry badge r) = None)"
proof -
  let ?e = "compute_entry badge r"
  have a: "achieved_tier ?e = achieved_loop r (tiers badge) None"
    and b: "next_requirement ?e = next_loop r (tiers badge)"
    using assms(1) by (simp_all add: compute_entry_def sorted_tiers_id)
  have top: "achieved_tier ?e = Some (fst (last (tiers badge)))" if "next_requirement ?e = None"
  proof -
    from that have "\<forall>p \<in> set (tiers badge). snd p \<le> r"
      by (simp add: b next_loop_None)
    from last_tier_reached[OF assms this] show ?thesis
      by (simp add: a)
  qed
  have above: "r < count n" if "next_requirement ?e = Some n" for n
    using that next_loop_above[of r "tiers badge" n] by (simp add: b)
  have one: "(achieved_tier ?e = Some (fst (last (tiers badge))) \<and> next_requirement ?e = None)
      \<noteq> (\<exists>n. next_requirement ?e = Some n \<and> r < count n)"
  proof (cases "next_requirement ?e")
    case None
    with top show ?thesis by simp
  next
    case (Some n)
    with above show ?thesis by simp
  qed
  have both: "\<not> (achieved_tier ?e = None \<and> next_requirement ?e = None)"
    using top by auto
  from one both show ?thesis by simp
qed

lemma catalogue_tiers:
  assumes "(n, badge) \<in> set badges"
  shows "sorted_wrt (<) (map snd (tiers badge))" "tiers badge \<noteq> []"
  using badges_cases[OF assms] by (elim disjE; simp add: badges_def)+

lemma shipped_check_returns:
  assumes "(n, badge) \<in> set badges"
  shows "\<exists>c. BadgeTracker w n (check_method badge) = Some (Inr c)"
  using badges_cases[OF assms] by (elim disjE) (simp_all add: badges_def BadgeTracker_def)

lemma report_entry_computed:
  assumes "get_badge_progress w = Inr progress" "(n, e) \<in> set progress"
  obtains badge c where "(n, badge) \<in> set badges" "e = compute_entry badge c"
proof -
  from assms(1) obtain l where "progress = get_badge_progress_of (BadgeTracker w) badges"
    by (rule report_cases)
  with assms(2) obtain badge where mem: "(n, badge) \<in> set badges"
    and e: "e = check_badge (BadgeTracker w) n badge"
    by (auto simp: get_badge_progress_of_map)
  from shipped_check_returns[OF mem, of w] obtain c
    where "BadgeTracker w n (check_method badge) = Some (Inr c)" by blast
  with e have "e = compute_entry badge c"
    by (simp add: check_badge_def)
  with mem show ?thesis by (rule that)
qed

text \<open>
  Claim C4. Every entry of every report that \<open>get_badge_progress\<close> returns satisfies
  exactly one of: its achieved tier is the highest tier of its badge (the last one, whose
  threshold no other exceeds) and it has no next requirement; or it has a next
  requirement, whose threshold exceeds the reading. No entry lacks both. The entries
  written for a check that raises are covered: none of the checks of the tracker raises,
  so no entry carries an \<open>error\<close> key.
\<close>

theorem report_entry_exactly_one:
  assumes "get_badge_progress w = Inr progress" "(n, e) \<in> set progress"
  shows
    "p_tiers e \<noteq> []
     \<and> (\<forall>p \<in> set (p_tiers e). snd p \<le> snd (last (p_tiers e)))
     \<and> ((achieved_tier e = Some (fst (last (p_tiers e))) \<and> next_requirement e = None)
        \<noteq> (\<exists>nx. next_requirement e = Some nx \<and> current e < count nx))
     \<and> \<not> (achieved_tier e = None \<and> next_requirement e = None)
     \<and> error e = None"
proof -
  from assms obtain badge c where mem: "(n, badge) \<in> set badges" and e: "e = compute_entry badge c"
    by (rule report_entry_computed)
  have f: "p_tiers e = tiers badge" "current e = c" "error e = None"
    by (simp_all add: e compute_entry_def)
  note srt = catalogue_tiers[OF mem]
  have top: "\<forall>p \<in> set (tiers badge). snd p \<le> snd (last (tiers badge))"
    using last_greatest[OF strict_sorted_imp_sorted[OF srt(1)]] by blast
  from compute_entry_exactly_one[OF srt, of c] srt(2) top show ?thesis
    by (simp add: f e[symmetric])
qed

theorem report_entry_exactly_one_witness:
  "get_badge_progress (account_with_merged_prs 20) =
     Inr (get_badge_progress_of (BadgeTracker (account_with_merged_prs 20)) badges)
   \<and> (''Heart On Your Sleeve'', compute_entry (snd (badges ! 0)) 20)
       \<in> set (get_badge_progress_of (BadgeTracker (account_with_merged_prs 20)) badges)
   \<and> achieved_tier (compute_entry (snd (badges ! 0)) 20) = Some ''Gold''
   \<and> fst (last (p_tiers (compute_entry (snd (badges ! 0)) 20))) = ''Gold''
   \<and> next_requirement (compute_entry (snd (badges ! 0)) 20) = None
   \<and> ((achieved_tier (compute_entry (snd (badges ! 0)) 20)
          = Some (fst (last (p_tiers (compute_entry (snd (badges ! 0)) 20))))
        \<and> next_requirement (compute_entry (snd (badges ! 0)) 20) = None)
       \<noteq> (\<exists>nx. next_requirement (compute_entry (snd (badges ! 0)) 20) = Some nx
              \<and> current (compute_entry (snd (badges ! 0)) 20) < count nx))"
proof -
  have r: "get_badge_progress (account_with_merged_prs 20) =
     Inr (get_badge_progress_of (BadgeTracker (account_with_merged_prs 20)) badges)"
    by (simp add: get_badge_progress_def account_with_merged_prs_def)
  have mem: "(''Heart On Your Sleeve'', snd (badges ! 0)) \<in> set badges"
    by (simp add: badges_def)
  have c: "BadgeTracker (account_with_merged_prs 20) ''Heart On Your Sleeve''
      (check_method (snd (badges ! 0))) = Some (Inr 20)"
    by (simp add: badges_def BadgeTracker_def count_merged_prs_def account_with_merged_prs_def)
  have inrep: "(''Heart On Your Sleeve'', compute_entry (snd (badges ! 0)) 20)
       \<in> set (get_badge_progress_of (BadgeTracker (account_with_merged_prs 20)) badges)"
    by (rule map_of_SomeD[OF tracker_entry[OF mem c]])
  have v: "achieved_tier (compute_entry (snd (badges ! 0)) 20) = Some ''Gold''"
    "fst (last (p_tiers (compute_entry (snd (badges ! 0)) 20))) = ''Gold''"
    "next_requirement (compute_entry (snd (badges ! 0)) 20) = None"
    by (simp_all add: badges_def compute_entry_def sorted_tiers_def)
  from report_entry_exactly_one[OF r inrep] r inrep v show ?thesis
    by simp
qed

section \<open>Properties of the earning plan\<close>

subsection \<open>The loop over the earning order\<close>

lemma plan_step_names:
  "bucket_names (plan_step progress pl n) b =
     bucket_names pl b @ (if expected_bucket progress n = Some b then [n] else [])"
proof (cases "map_of progress n")
  case None
  then show ?thesis
    by (simp add: plan_step_def expected_bucket_def)
next
  case (Some e)
  show ?thesis
  proof (cases "truthy (achieved_tier e)")
    case True
    with Some show ?thesis
      by (cases b) (simp_all add: plan_step_def expected_bucket_def bucket_of_def bucket_names_def)
  next
    case False
    with Some show ?thesis
      by (cases b) (simp_all add: plan_step_def expected_bucket_def bucket_of_def bucket_names_def
          capability_def)
  qed
qed

lemma foldl_plan_step_names:
  "bucket_names (foldl (plan_step progress) pl order) b =
     bucket_names pl b @ filter (\<lambda>n. expected_bucket progress n = Some b) order"
  by (induction order arbitrary: pl) (simp_all add: plan_step_names)

lemma plan_names:
  "bucket_names (plan_of_progress progress) b =
     filter (\<lambda>n. expected_bucket progress n = Some b) earning_order"
  by (simp add: plan_of_progress_def foldl_plan_step_names)
    (cases b; simp add: bucket_names_def empty_plan_def)

lemma distinct_earning_order: "distinct earning_order"
  by (simp add: earning_order_def)

lemma earning_order_catalogue: "set earning_order = fst ` set badges"
proof -
  have "set earning_order = set (map fst badges)"
    by code_simp
  then show ?thesis by simp
qed

lemma count_list_filter_distinct:
  "distinct xs \<Longrightarrow> count_list (filter P xs) x = (if x \<in> set xs \<and> P x then 1 else 0)"
  by (induction xs) auto

subsection \<open>Every badge in one list\<close>

lemma achieved_loop_label:
  "achieved_loop c ts None = Some l \<Longrightarrow> l \<in> fst ` set ts"
proof -
  assume a: "achieved_loop c ts None = Some l"
  let ?F = "filter (\<lambda>p. snd p \<le> c) ts"
  from a have ne: "?F \<noteq> []" and l: "l = fst (last ?F)"
    by (auto simp: achieved_loop_filter split: if_splits)
  from ne have "last ?F \<in> set ?F" by (rule last_in_set)
  then have "last ?F \<in> set ts" by simp
  with l show ?thesis by simp
qed

lemma catalogue_labels:
  "(n, badge) \<in> set badges \<Longrightarrow> l \<in> fst ` set (tiers badge) \<Longrightarrow> l \<noteq> []"
  by (drule badges_cases) (elim disjE; auto simp: badges_def)

lemma entry_label_truthy:
  assumes "(n, badge) \<in> set badges"
  shows "truthy (achieved_tier (check_badge self n badge))
     \<longleftrightarrow> achieved_tier (check_badge self n badge) \<noteq> None"
proof (cases "achieved_tier (check_badge self n badge)")
  case None
  then show ?thesis by simp
next
  case (Some l)
  have "l \<in> fst ` set (tiers badge)"
  proof (cases "self n (check_method badge)")
    case None
    with Some have "achieved_loop 0 (sorted_tiers (tiers badge)) None = Some l"
      by (simp add: check_badge_def compute_entry_def)
    from achieved_loop_label[OF this] show ?thesis
      by (simp add: sorted_tiers_def)
  next
    case outcome: (Some r)
    show ?thesis
    proof (cases r)
      case (Inl e)
      with outcome Some show ?thesis
        by (simp add: check_badge_def error_entry_def)
    next
      case (Inr c)
      with outcome Some have "achieved_loop c (sorted_tiers (tiers badge)) None = Some l"
        by (simp add: check_badge_def compute_entry_def)
      from achieved_loop_label[OF this] show ?thesis
        by (simp add: sorted_tiers_def)
    qed
  qed
  from catalogue_labels[OF assms this] Some show ?thesis by simp
qed

text \<open>
  Claim C6. Whatever the checks of the tracker return or raise, every badge of the
  catalogue has an entry in the progress and occurs exactly once in the plan: in the list
  \<open>completed\<close> when its entry has an achieved tier, whatever the name, and otherwise in
  the one list among \<open>immediate\<close>, \<open>quick\<close>, \<open>short_term\<close> and \<open>long_term\<close> that the
  name tests of the planner give for its name; it occurs in no other list, and the
  lists hold no other names.
\<close>

theorem plan_classification_total:
  "(\<forall>(n, badge) \<in> set badges.
      map_of (get_badge_progress_of self badges) n = Some (check_badge self n badge)
    \<and> (\<forall>b. count_list (bucket_names (get_earning_plan_of self) b) n =
            (if b = (if achieved_tier (check_badge self n badge) \<noteq> None then Completed
                     else capability n)
             then 1 else 0))
    \<and> capability n \<in> {Immediate, Quick, ShortTerm, LongTerm})
   \<and> (\<forall>b. set (bucket_names (get_earning_plan_of self) b) \<subseteq> fst ` set badges)"
proof -
  let ?progress = "get_badge_progress_of self badges"
  have names: "bucket_names (get_earning_plan_of self) b =
      filter (\<lambda>n. expected_bucket ?progress n = Some b) earning_order" for b
    by (simp add: get_earning_plan_of_def plan_names)
  have part1: "map_of ?progress n = Some (check_badge self n badge)
    \<and> (\<forall>b. count_list (bucket_names (get_earning_plan_of self) b) n =
            (if b = (if achieved_tier (check_badge self n badge) \<noteq> None then Completed
                     else capability n)
             then 1 else 0))
    \<and> capability n \<in> {Immediate, Quick, ShortTerm, LongTerm}"
    if mem: "(n, badge) \<in> set badges" for n badge
  proof -
    have entry: "map_of ?progress n = Some (check_badge self n badge)"
      by (rule progress_entry_of_badge[OF mem])
    have exp: "expected_bucket ?progress n =
        Some (if achieved_tier (check_badge self n badge) \<noteq> None then Completed else capability n)"
      using entry_label_truthy[OF mem, of self]
      by (simp add: expected_bucket_def entry bucket_of_def)
    have inorder: "n \<in> set earning_order"
      using mem by (force simp: earning_order_catalogue)
    have cnt: "count_list (bucket_names (get_earning_plan_of self) b) n =
            (if b = (if achieved_tier (check_badge self n badge) \<noteq> None then Completed
                     else capability n)
             then 1 else 0)" for b
      unfolding names count_list_filter_distinct[OF distinct_earning_order]
      using inorder exp by auto
    have cap: "capability n \<in> {Immediate, Quick, ShortTerm, LongTerm}"
      by (simp add: capability_def)
    from entry cnt cap show ?thesis by blast
  qed
  have part2: "set (bucket_names (get_earning_plan_of self) b) \<subseteq> fst ` set badges" for b
    unfolding names using earning_order_catalogue by auto
  from part1 part2 show ?thesis by blast
qed

lemma plan_returned:
  "login w = Inr l \<Longrightarrow> get_earning_plan w = Inr (get_earning_plan_of (BadgeTracker w))"
  by (simp add: get_earning_plan_def get_badge_progress_def get_earning_plan_of_def)

theorem plan_classification_total_witness:
  "get_earning_plan (account_with_merged_prs 20) =
     Inr (get_earning_plan_of (BadgeTracker (account_with_merged_prs 20)))
   \<and> (''Heart On Your Sleeve'', snd (badges ! 0)) \<in> set badges
   \<and> achieved_tier (check_badge (BadgeTracker (account_with_merged_prs 20)) ''Heart On Your Sleeve''
        (snd (badges ! 0))) = Some ''Gold''
   \<and> count_list (bucket_names (get_earning_plan_of (BadgeTracker (account_with_merged_prs 20))) Completed)
        ''Heart On Your Sleeve'' = 1
   \<and> count_list (bucket_names (get_earning_plan_of (BadgeTracker (account_with_merged_prs 20))) ShortTerm)
        ''Heart On Your Sleeve'' = 0
   \<and> capability ''Heart On Your Sleeve'' = ShortTerm"
proof -
  have r: "get_earning_plan (account_with_merged_prs 20) =
     Inr (get_earning_plan_of (BadgeTracker (account_with_merged_prs 20)))"
    by (rule plan_returned[of _ "''octocat''"]) (simp add: account_with_merged_prs_def)
  have mem: "(''Heart On Your Sleeve'', snd (badges ! 0)) \<in> set badges"
    by (simp add: badges_def)
  have c: "BadgeTracker (account_with_merged_prs 20) ''Heart On Your Sleeve''
      (check_method (snd (badges ! 0))) = Some (Inr 20)"
    by (simp add: badges_def BadgeTracker_def count_merged_prs_def account_with_merged_prs_def)
  have e: "compute_entry (snd (badges ! 0)) 20 =
      \<lparr>current = 20, achieved_tier = Some ''Gold'', next_requirement = None,
       p_description = description (snd (badges ! 0)), p_tiers = tiers (snd (badges ! 0)),
       error = None\<rparr>"
    by (simp add: badges_def compute_entry_def sorted_tiers_def)
  have a: "achieved_tier (check_badge (BadgeTracker (account_with_merged_prs 20)) ''Heart On Your Sleeve''
        (snd (badges ! 0))) = Some ''Gold''"
    by (simp add: check_badge_def c e)
  have cap: "capability ''Heart On Your Sleeve'' = ShortTerm"
    by (simp add: capability_def)
  from plan_classification_total[of "BadgeTracker (account_with_merged_prs 20)"] mem
  have "\<forall>b. count_list (bucket_names (get_earning_plan_of (BadgeTracker (account_with_merged_prs 20))) b)
        ''Heart On Your Sleeve'' =
            (if b = (if achieved_tier (check_badge (BadgeTracker (account_with_merged_prs 20))
                          ''Heart On Your Sleeve'' (snd (badges ! 0))) \<noteq> None then Completed
                     else capability ''Heart On Your Sleeve'')
             then 1 else 0)"
    by fast
  with r mem a cap show ?thesis
    by simp
qed

subsection \<open>The order inside a list\<close>

lemma filter_restrict:
  "filter P xs = restrict_order xs (filter P xs)"
  unfolding restrict_order_def by (rule filter_cong) auto

lemma empty_account_expected:
  assumes "(n, badge) \<in> set badges"
  shows "expected_bucket (get_badge_progress_of (BadgeTracker (empty_account l)) badges) n
     = Some (capability n)"
proof -
  have zero: "count_merged_prs (empty_account l) = 0" "count_repos_with_merged_prs (empty_account l) = 0"
    "count_max_stars (empty_account l) = 0"
    by (simp_all add: empty_account_def count_merged_prs_def count_repos_with_merged_prs_def
        count_max_stars_def)
  have "BadgeTracker (empty_account l) n (check_method badge) = Some (Inr 0)"
    using badges_cases[OF assms]
    by (elim disjE)
      (simp_all add: badges_def BadgeTracker_def zero check_quickdraw_def count_coauthored_commits_def
        count_discussion_answers_def check_yolo_merges_def check_sponsorships_def)
  from tracker_entry[OF assms this] zero_entry[OF assms] show ?thesis
    by (simp add: expected_bucket_def bucket_of_def)
qed

lemma empty_account_plan_names:
  "bucket_names (get_earning_plan_of (BadgeTracker (empty_account l))) b
     = filter (\<lambda>n. capability n = b) earning_order"
proof -
  let ?progress = "get_badge_progress_of (BadgeTracker (empty_account l)) badges"
  have "filter (\<lambda>n. expected_bucket ?progress n = Some b) earning_order
      = filter (\<lambda>n. capability n = b) earning_order"
  proof (rule filter_cong[OF refl])
    fix n assume "n \<in> set earning_order"
    then obtain badge where "(n, badge) \<in> set badges"
      by (auto simp: earning_order_catalogue)
    from empty_account_expected[OF this]
    show "(expected_bucket ?progress n = Some b) = (capability n = b)"
      by simp
  qed
  then show ?thesis
    by (simp add: get_earning_plan_of_def plan_names)
qed

text \<open>
  Claim C7, as amended. In each list of the plan the names stand in the order of the
  planner's own \<open>earning_order\<close> (easiest to hardest), restricted to the names that
  belong to that list: the list is the earning order filtered by the list expected for
  each name, for every progress, for every tracker, and for every plan that
  \<open>get_earning_plan\<close> returns.
\<close>

theorem plan_follows_earning_order:
  "bucket_names (plan_of_progress progress) b =
     filter (\<lambda>n. expected_bucket progress n = Some b) earning_order
   \<and> bucket_names (plan_of_progress progress) b =
       restrict_order earning_order (bucket_names (plan_of_progress progress) b)
   \<and> bucket_names (get_earning_plan_of self) b =
       restrict_order earning_order (bucket_names (get_earning_plan_of self) b)
   \<and> (get_earning_plan w = Inr pl \<longrightarrow>
        bucket_names pl b = restrict_order earning_order (bucket_names pl b))"
proof -
  have 1: "bucket_names (plan_of_progress progress) b =
     filter (\<lambda>n. expected_bucket progress n = Some b) earning_order" for progress
    by (rule plan_names)
  have 2: "bucket_names (plan_of_progress progress) b =
       restrict_order earning_order (bucket_names (plan_of_progress progress) b)" for progress
    unfolding 1 by (rule filter_restrict)
  have 3: "get_earning_plan w = Inr pl \<longrightarrow>
        bucket_names pl b = restrict_order earning_order (bucket_names pl b)"
    using 2 by (auto simp: get_earning_plan_def split: sum.splits)
  from 1 2 3 show ?thesis
    by (simp add: get_earning_plan_of_def)
qed

theorem plan_follows_earning_order_witness:
  "get_earning_plan (empty_account ''octocat'') =
     Inr (get_earning_plan_of (BadgeTracker (empty_account ''octocat'')))
   \<and> bucket_names (get_earning_plan_of (BadgeTracker (empty_account ''octocat''))) LongTerm
     = restrict_order earning_order
         (bucket_names (get_earning_plan_of (BadgeTracker (empty_account ''octocat''))) LongTerm)
   \<and> bucket_names (get_earning_plan_of (BadgeTracker (empty_account ''octocat''))) LongTerm
     = [''Pull Shark'', ''Galaxy Brain'', ''Starstruck'']"
proof -
  have r: "get_earning_plan (empty_account ''octocat'') =
     Inr (get_earning_plan_of (BadgeTracker (empty_account ''octocat'')))"
    by (rule plan_returned[of _ "''octocat''"]) (simp add: empty_account_def)
  have a: "bucket_names (get_earning_plan_of (BadgeTracker (empty_account ''octocat''))) LongTerm
     = [''Pull Shark'', ''Galaxy Brain'', ''Starstruck'']"
    unfolding empty_account_plan_names by (simp add: earning_order_def capability_def)
  from plan_follows_earning_order[where w = "empty_account ''octocat''"
      and pl = "get_earning_plan_of (BadgeTracker (empty_account ''octocat''))" and b = LongTerm] r
  have "bucket_names (get_earning_plan_of (BadgeTracker (empty_account ''octocat''))) LongTerm
     = restrict_order earning_order
         (bucket_names (get_earning_plan_of (BadgeTracker (empty_account ''octocat''))) LongTerm)"
    by blast
  with r a show ?thesis by simp
qed

text \<open>
  Where claim C7 fails as it was stated: for an account that has achieved nothing,
  \<open>get_earning_plan\<close> returns a plan whose list \<open>long_term\<close> is Pull Shark, Galaxy Brain,
  Starstruck, while the catalogue declares Starstruck before the other two.
\<close>

theorem plan_order_counterexample:
  "get_earning_plan (empty_account ''octocat'') =
     Inr (get_earning_plan_of (BadgeTracker (empty_account ''octocat'')))
   \<and> bucket_names (get_earning_plan_of (BadgeTracker (empty_account ''octocat''))) LongTerm
     = [''Pull Shark'', ''Galaxy Brain'', ''Starstruck'']
   \<and> restrict_order (map fst badges)
       (bucket_names (get_earning_plan_of (BadgeTracker (empty_account ''octocat''))) LongTerm)
     = [''Starstruck'', ''Pull Shark'', ''Galaxy Brain'']
   \<and> bucket_names (get_earning_plan_of (BadgeTracker (empty_account ''octocat''))) LongTerm
     \<noteq> restrict_order (map fst badges)
         (bucket_names (get_earning_plan_of (BadgeTracker (empty_account ''octocat''))) LongTerm)"
proof -
  have r: "get_earning_plan (empty_account ''octocat'') =
     Inr (get_earning_plan_of (BadgeTracker (empty_account ''octocat'')))"
    by (rule plan_returned[of _ "''octocat''"]) (simp add: empty_account_def)
  have a: "bucket_names (get_earning_plan_of (BadgeTracker (empty_account ''octocat''))) LongTerm
     = [''Pull Shark'', ''Galaxy Brain'', ''Starstruck'']"
    unfolding empty_account_plan_names by (simp add: earning_order_def capability_def)
  have b: "restrict_order (map fst badges) [''Pull Shark'', ''Galaxy Brain'', ''Starstruck'']
     = [''Starstruck'', ''Pull Shark'', ''Galaxy Brain'']"
    by (simp add: restrict_order_def badges_def)
  from r a b show ?thesis by simp
qed

section \<open>Properties of the timed workflows\<close>

subsection \<open>A run in which nothing fails\<close>





subsection \<open>What is cleaned up after a failure\<close>

lemma quickdraw_cleanup:
  "\<not> fst (earn_quickdraw_badge svc) \<Longrightarrow>
   cleanup_attempted (after_failure (snd (earn_quickdraw_badge svc))) =
     filter (\<lambda>a. a = Repository) (created_handles (before_failure (snd (earn_quickdraw_badge svc))))"
  by (simp add: earn_quickdraw_badge_def perform_def cleanup_handler_def before_failure_def
      after_failure_def Let_def split: if_splits)

lemma yolo_cleanup:
  "\<not> fst (earn_yolo_badge svc) \<Longrightarrow>
   cleanup_attempted (after_failure (snd (earn_yolo_badge svc))) =
     filter (\<lambda>a. a = Repository) (created_handles (before_failure (snd (earn_yolo_badge svc))))"
  by (simp add: earn_yolo_badge_def perform_def cleanup_handler_def before_failure_def
      after_failure_def Let_def split: if_splits)

lemma quickdraw_failure_points:
  "svc [] CreateRepo \<Longrightarrow> earn_quickdraw_badge svc = (False, [Raised CreateRepo])"
  "\<not> svc [] CreateRepo \<Longrightarrow> svc [Returned CreateRepo] CreateIssue \<Longrightarrow>
     earn_quickdraw_badge svc =
       (False, fst (perform svc [Returned CreateRepo, Raised CreateIssue] DeleteRepo))"
  "\<not> svc [] CreateRepo \<Longrightarrow> \<not> svc [Returned CreateRepo] CreateIssue \<Longrightarrow>
   svc [Returned CreateRepo, Returned CreateIssue, Returned (Sleep 30)] EditIssueClosed \<Longrightarrow>
     earn_quickdraw_badge svc =
       (False, fst (perform svc [Returned CreateRepo, Returned CreateIssue, Returned (Sleep 30),
                                 Raised EditIssueClosed] DeleteRepo))"
  by (simp_all add: earn_quickdraw_badge_def perform_def cleanup_handler_def)

text \<open>
  Claim C5, as amended. The workflows keep no list of created handles: the only thing
  tracked for cleanup is the repository. Whenever a run of either workflow fails, the
  cleanup attempted after the failure is one deletion of the repository if the
  repository was created before the failure, and nothing otherwise; the issue, branch,
  file and pull request are never deleted one by one. For the fast-close workflow: when
  creating the repository raises, the run ends at once with no cleanup call; when
  creating the issue raises, or closing it raises, the handler makes one attempt to
  delete the repository, whose own failure is swallowed, and the run returns \<open>False\<close>
  after that attempt.
\<close>

theorem cleanup_targets_repository:
  "(\<not> fst (earn_quickdraw_badge svc) \<longrightarrow>
      cleanup_attempted (after_failure (snd (earn_quickdraw_badge svc))) =
        filter (\<lambda>a. a = Repository)
          (created_handles (before_failure (snd (earn_quickdraw_badge svc)))))
   \<and> (\<not> fst (earn_yolo_badge svc) \<longrightarrow>
      cleanup_attempted (after_failure (snd (earn_yolo_badge svc))) =
        filter (\<lambda>a. a = Repository)
          (created_handles (before_failure (snd (earn_yolo_badge svc)))))
   \<and> (svc [] CreateRepo \<longrightarrow> earn_quickdraw_badge svc = (False, [Raised CreateRepo]))
   \<and> (\<not> svc [] CreateRepo \<and> svc [Returned CreateRepo] CreateIssue \<longrightarrow>
        earn_quickdraw_badge svc =
          (False, fst (perform svc [Returned CreateRepo, Raised CreateIssue] DeleteRepo)))
   \<and> (\<not> svc [] CreateRepo \<and> \<not> svc [Returned CreateRepo] CreateIssue
        \<and> svc [Returned CreateRepo, Returned CreateIssue, Returned (Sleep 30)] EditIssueClosed \<longrightarrow>
        earn_quickdraw_badge svc =
          (False, fst (perform svc [Returned CreateRepo, Returned CreateIssue, Returned (Sleep 30),
                                    Raised EditIssueClosed] DeleteRepo)))"
  using quickdraw_cleanup[of svc] yolo_cleanup[of svc] quickdraw_failure_points[of svc]
  by blast

theorem cleanup_targets_repository_witness:
  "\<not> fst (earn_quickdraw_badge (fails_on CreateIssue))
   \<and> earn_quickdraw_badge (fails_on CreateIssue) =
       (False, [Returned CreateRepo, Raised CreateIssue, Returned DeleteRepo])
   \<and> created_handles (before_failure (snd (earn_quickdraw_badge (fails_on CreateIssue)))) = [Repository]
   \<and> cleanup_attempted (after_failure (snd (earn_quickdraw_badge (fails_on CreateIssue)))) = [Repository]"
proof -
  have h: "\<not> fails_on CreateIssue [] CreateRepo" "fails_on CreateIssue [Returned CreateRepo] CreateIssue"
    by (simp_all add: fails_on_def)
  have p: "fst (perform (fails_on CreateIssue) [Returned CreateRepo, Raised CreateIssue] DeleteRepo)
      = [Returned CreateRepo, Raised CreateIssue, Returned DeleteRepo]"
    by (simp add: perform_def fails_on_def)
  from cleanup_targets_repository[of "fails_on CreateIssue"] h p
  have run: "earn_quickdraw_badge (fails_on CreateIssue) =
       (False, [Returned CreateRepo, Raised CreateIssue, Returned DeleteRepo])"
    by simp
  then show ?thesis
    by (simp add: before_failure_def after_failure_def)
qed

text \<open>
  Where claim C5 fails as it was stated: when closing the issue raises, the repository
  and the issue were created before the failure, and the cleanup that follows is
  attempted on the repository alone, not on the created handles in reverse order.
\<close>

theorem cleanup_targets_counterexample:
  "created_handles (before_failure (snd (earn_quickdraw_badge (fails_on EditIssueClosed))))
     = [Repository, Issue]
   \<and> cleanup_attempted (after_failure (snd (earn_quickdraw_badge (fails_on EditIssueClosed))))
     = [Repository]
   \<and> cleanup_attempted (after_failure (snd (earn_quickdraw_badge (fails_on EditIssueClosed))))
     \<noteq> rev (created_handles (before_failure (snd (earn_quickdraw_badge (fails_on EditIssueClosed)))))"
  by (simp add: earn_quickdraw_badge_def perform_def cleanup_handler_def fails_on_def
      before_failure_def after_failure_def)

subsection \<open>A cleanup that fails after the finalize step\<close>

text \<open>
  Claim C2 against the code. When every call returns except the deletion of the
  repository that follows a successful finalize step, both workflows report \<open>False\<close>: the
  exception of \<open>repo.delete()\<close> is caught by the handler of the whole block, which
  attempts the deletion once more and returns \<open>False\<close>, even when this second attempt
  returns and nothing is left on the service.
\<close>

theorem cleanup_failure_changes_result:
  "earn_quickdraw_badge (fails_on DeleteRepo) =
     (False, [Returned CreateRepo, Returned CreateIssue, Returned (Sleep 30),
              Returned EditIssueClosed, Raised DeleteRepo, Raised DeleteRepo])
   \<and> earn_quickdraw_badge (fails_once_on DeleteRepo) =
     (False, [Returned CreateRepo, Returned CreateIssue, Returned (Sleep 30),
              Returned EditIssueClosed, Raised DeleteRepo, Returned DeleteRepo])
   \<and> remaining_artifacts [] (snd (earn_quickdraw_badge (fails_once_on DeleteRepo))) = []
   \<and> earn_yolo_badge (fails_on DeleteRepo) =
     (False, [Returned CreateRepo, Returned GetBranch, Returned CreateGitRef, Returned CreateFile,
              Returned CreatePull, Returned MergePull, Raised DeleteRepo, Raised DeleteRepo])
   \<and> earn_yolo_badge (fails_once_on DeleteRepo) =
     (False, [Returned CreateRepo, Returned GetBranch, Returned CreateGitRef, Returned CreateFile,
              Returned CreatePull, Returned MergePull, Raised DeleteRepo, Returned DeleteRepo])"
  by (simp add: earn_quickdraw_badge_def earn_yolo_badge_def perform_def cleanup_handler_def
      fails_on_def fails_once_on_def)

end
